theory Spec2Isabelle
  imports Complex_Main "HOL-Library.Char_ord" "HOL-Library.List_Lexorder"
    "HOL-Library.Multiset" "HOL-Library.Sublist" "HOL-Library.AList"
begin

section \<open>Data model (domain/schemas.py)\<close>

text \<open>
  The pydantic models of \<^verbatim>\<open>domain/schemas.py\<close>. A \<^verbatim>\<open>Literal[...]\<close> field is a
  datatype, a model is a record. Python floats are modelled by exact rationals.
\<close>

datatype verdict = PASS | WARN | FAIL | NEEDS_WORK

datatype severity = High | Medium | Low

datatype payload = Found string | ErrorPayload string

record finding =
  finding_id :: string
  finding_iteration :: int
  severity :: severity
  finding_type :: string
  finding_file :: string
  finding_line :: int
  description :: string

text \<open>
  One entry of \<^verbatim>\<open>context_gathered\<close>: the dict built in \<^verbatim>\<open>_spawn_context_agents\<close>
  (keys iteration, context_type, result, cost_usd, tokens, cache_key and, on the error
  path, failed).
\<close>

record gathered =
  g_iteration :: int
  g_context_type :: string
  g_result :: payload
  g_failed :: bool
  g_cost_usd :: rat
  g_tokens :: nat
  g_cache_key :: string

record review_agent_verdict =
  verdict :: verdict
  confidence :: rat
  summary :: string
  report_specialty :: string
  report_findings :: "finding list"
  report_context_gathered :: "gathered list"
  iterations_used :: int
  report_needs_more_context :: bool

section \<open>Python library functions used by the code\<close>

text \<open>
  \<^verbatim>\<open>str(n)\<close> for integers and \<^verbatim>\<open>sep.join(xs)\<close>.
\<close>

fun str_nat :: "nat \<Rightarrow> string" where
  "str_nat n =
     (if n < 10 then [''0123456789'' ! n]
      else str_nat (n div 10) @ [''0123456789'' ! (n mod 10)])"

declare str_nat.simps [simp del]

definition str_int :: "int \<Rightarrow> string" where
  "str_int i = (if i < 0 then CHR ''-'' # str_nat (nat (- i)) else str_nat (nat i))"

fun join :: "string \<Rightarrow> string list \<Rightarrow> string" where
  "join sep [] = []"
| "join sep [x] = x"
| "join sep (x # y # ys) = x @ sep @ join sep (y # ys)"

text \<open>
  JSON documents (\<^verbatim>\<open>Dict[str, Any]\<close> fields). Non-integral numbers are left out.
  An object is the list of its items in insertion order, as a Python dict keeps them.
\<close>

datatype json =
  JNull | JBool bool | JNum int | JStr string | JArr "json list" | JObj "(string \<times> json) list"

text \<open>
  Functions of the standard library and of third-party packages whose code is not part of
  the repository are passed in: the MD5 hex digest, the JSON encoding of a string
  literal, \<^verbatim>\<open>json.loads\<close> (\<open>None\<close> when it raises JSONDecodeError), and
  \<^verbatim>\<open>datetime.isoformat\<close> / \<^verbatim>\<open>datetime.fromisoformat\<close> (\<open>None\<close> when it raises
  ValueError). A datetime is a number of seconds.
\<close>

record pylib =
  md5_hexdigest :: "string \<Rightarrow> string"
  json_string :: "string \<Rightarrow> string"
  json_loads :: "string \<Rightarrow> json option"
  isoformat :: "nat \<Rightarrow> string"
  fromisoformat :: "string \<Rightarrow> nat option"

text \<open>
  \<^verbatim>\<open>json.dumps(obj, sort_keys=...)\<close> with the default separators; with
  \<^verbatim>\<open>sort_keys=True\<close> the items of every object are sorted by key before they are
  written.
\<close>

function json_dumps :: "pylib \<Rightarrow> bool \<Rightarrow> json \<Rightarrow> string" where
  "json_dumps L sort_keys JNull = ''null''"
| "json_dumps L sort_keys (JBool b) = (if b then ''true'' else ''false'')"
| "json_dumps L sort_keys (JNum i) = str_int i"
| "json_dumps L sort_keys (JStr s) = json_string L s"
| "json_dumps L sort_keys (JArr xs) =
     ''['' @ join '', '' (map (\<lambda>x. json_dumps L sort_keys x) xs) @ '']''"
| "json_dumps L sort_keys (JObj kvs) =
     ''{'' @ join '', ''
        (map (\<lambda>kv. json_string L (fst kv) @ '': '' @ json_dumps L sort_keys (snd kv))
          (if sort_keys then sort_key fst kvs else kvs)) @ ''}''"
  by pat_completeness auto
termination
proof (relation "measure (\<lambda>(L, sort_keys, j). size j)")
  show "wf (measure (\<lambda>(L :: pylib, sort_keys :: bool, j :: json). size j))"
    by simp
next
  fix L :: pylib and sort_keys :: bool and xs :: "json list" and x
  assume "x \<in> set xs"
  then have "size x \<le> size_list size xs"
    by (rule size_list_estimation') simp
  then show "((L, sort_keys, x), L, sort_keys, JArr xs) \<in> measure (\<lambda>(L, sort_keys, j). size j)"
    by simp
next
  fix L :: pylib and sort_keys :: bool and kvs :: "(string \<times> json) list" and x
  assume "x \<in> set (if sort_keys then sort_key fst kvs else kvs)"
  then have "x \<in> set kvs"
    by (simp split: if_splits)
  then have "size (snd x) \<le> size_list (size_prod (\<lambda>_. 0) size) kvs"
    by (rule size_list_estimation') (cases x, simp)
  then show "((L, sort_keys, snd x), L, sort_keys, JObj kvs) \<in> measure (\<lambda>(L, sort_keys, j). size j)"
    by simp
qed

section \<open>Agent templates (factory/prompts.py)\<close>

text \<open>
  The numeric fields of \<^verbatim>\<open>REVIEW_AGENT_TEMPLATES\<close>; prompt text and model pool play no
  part in control flow. \<^verbatim>\<open>CONTEXT_AGENT_TEMPLATES\<close> is represented by its keys.
\<close>

record review_template =
  max_iterations :: int
  context_agent_budget :: int

definition REVIEW_AGENT_TEMPLATES :: "(string \<times> review_template) list" where
  "REVIEW_AGENT_TEMPLATES =
     [(''alignment'', \<lparr>max_iterations = 3, context_agent_budget = 2\<rparr>),
      (''dependencies'', \<lparr>max_iterations = 2, context_agent_budget = 2\<rparr>),
      (''testing'', \<lparr>max_iterations = 2, context_agent_budget = 1\<rparr>),
      (''security'', \<lparr>max_iterations = 2, context_agent_budget = 2\<rparr>)]"

definition CONTEXT_AGENT_TEMPLATES :: "string list" where
  "CONTEXT_AGENT_TEMPLATES = [''zoekt_search'', ''lsp_analysis'', ''git_history'', ''test_coverage'']"

text \<open>The \<^verbatim>\<open>Literal\<close> of the \<^verbatim>\<open>specialty\<close> fields.\<close>

definition SPECIALTIES :: "string list" where
  "SPECIALTIES = [''alignment'', ''dependencies'', ''testing'', ''security'']"

section \<open>Specialist state (ReviewAgentState)\<close>

text \<open>
  A context request is one dict of \<^verbatim>\<open>context_requests_this_iteration\<close>; a key may be
  absent. The inherited read-only fields of the state (PR metadata, diff, changed files)
  only feed prompt text and are left out.
\<close>

record context_request =
  req_type :: "string option"
  req_query :: "string option"
  req_files :: "string list option"

record review_agent_state =
  specialty :: string
  context_gathered :: "gathered list"
  findings :: "finding list"
  reasoning_history :: "string list"
  current_iteration :: int
  context_requests_this_iteration :: "context_request list"
  needs_more_context :: bool
  final_report :: "review_agent_verdict option"

section \<open>Specialist subgraph: finalize (factory/agent_factory.py)\<close>

text \<open>
  Constructing a \<^verbatim>\<open>ReviewAgentVerdict\<close> runs the schema's field constraints; a violated
  one raises a validation error, reported here by the name of the field.
\<close>

definition FINDING_TYPES :: "string list" where
  "FINDING_TYPES =
     [''type_error'', ''bug'', ''security'', ''performance'', ''style'', ''architecture'',
      ''dependency'']"

definition validate_finding :: "finding \<Rightarrow> bool" where
  "validate_finding f \<longleftrightarrow>
     finding_type f \<in> set FINDING_TYPES \<and> 1 \<le> finding_line f \<and> 10 \<le> length (description f)"

definition validate_gathered :: "gathered \<Rightarrow> bool" where
  "validate_gathered g \<longleftrightarrow>
     1 \<le> g_iteration g \<and> g_context_type g \<in> set CONTEXT_AGENT_TEMPLATES \<and> 0 \<le> g_cost_usd g"

definition validate_verdict :: "review_agent_verdict \<Rightarrow> string option" where
  "validate_verdict v =
     (if \<not> (0 \<le> confidence v \<and> confidence v \<le> 1) then Some ''confidence''
      else if length (summary v) < 10 then Some ''summary''
      else if report_specialty v \<notin> set SPECIALTIES then Some ''specialty''
      else if \<not> list_all validate_finding (report_findings v) then Some ''findings''
      else if \<not> list_all validate_gathered (report_context_gathered v)
        then Some ''context_gathered''
      else if iterations_used v < 1 then Some ''iterations_used''
      else None)"

text \<open>Sequencing of steps that may raise: the first exception ends the evaluation.\<close>

definition and_then :: "'e + 'a \<Rightarrow> ('a \<Rightarrow> 'e + 'b) \<Rightarrow> 'e + 'b" where
  "and_then r f = (case r of Inl e \<Rightarrow> Inl e | Inr x \<Rightarrow> f x)"

text \<open>Calling the constructor \<^verbatim>\<open>ReviewAgentVerdict(...)\<close>: the schema accepts or raises.\<close>

definition construct_verdict :: "review_agent_verdict \<Rightarrow> string + review_agent_verdict" where
  "construct_verdict v = (case validate_verdict v of None \<Rightarrow> Inr v | Some e \<Rightarrow> Inl e)"

text \<open>
  The findings of the state are \<^verbatim>\<open>Finding\<close> objects (\<^verbatim>\<open>findings: List[Finding]\<close>, and
  the graph is built on the pydantic state type), and a pydantic model has no method
  \<^verbatim>\<open>get\<close>: the call \<^verbatim>\<open>f.get('severity')\<close> raises AttributeError. The comprehension
  \<^verbatim>\<open>[f for f in state.findings if f.get('severity') == sev]\<close> therefore raises at its
  first element and yields the empty list only for an empty list.
\<close>

definition no_attribute_get :: string where
  "no_attribute_get =
     [CHR 0x27] @ ''Finding'' @ [CHR 0x27] @ '' object has no attribute ''
       @ [CHR 0x27] @ ''get'' @ [CHR 0x27]"

definition finding_get :: "finding \<Rightarrow> string \<Rightarrow> string + string" where
  "finding_get f k = Inl no_attribute_get"

fun select_findings :: "string \<Rightarrow> finding list \<Rightarrow> string + finding list" where
  "select_findings sev [] = Inr []"
| "select_findings sev (f # fs) =
     (case finding_get f ''severity'' of
        Inl e \<Rightarrow> Inl e
      | Inr v \<Rightarrow>
          (case select_findings sev fs of
             Inl e \<Rightarrow> Inl e
           | Inr rest \<Rightarrow> Inr (if v = sev then f # rest else rest)))"

text \<open>
  The report the \<^verbatim>\<open>try\<close> block of \<^verbatim>\<open>_review_agent_finalize\<close> builds from the two
  selected lists. The float arithmetic is written over the rationals, each literal as
  the decimal it is written with, so the rounding of binary64 is left out; of the
  confidence computed here the properties below use only that it lies between the
  bounds 0.1 and 0.95 of the clamp, which \<^verbatim>\<open>max\<close> and \<^verbatim>\<open>min\<close> give for the floats
  as well.
\<close>

definition finalize_report ::
  "review_template \<Rightarrow> review_agent_state \<Rightarrow> finding list \<Rightarrow> finding list \<Rightarrow> review_agent_verdict" where
  "finalize_report template state high_severity_findings medium_severity_findings =
     (let base_confidence = 8 / 10;
          context_bonus = min (1 / 10) (of_nat (length (context_gathered state)) * (2 / 100));
          severity_penalty =
            of_nat (length high_severity_findings) * (2 / 10)
            + of_nat (length medium_severity_findings) * (1 / 10);
          iteration_penalty =
            max 0 (of_int (current_iteration state - max_iterations template) * (1 / 10));
          conf = max (1 / 10)
            (min (95 / 100) (base_confidence + context_bonus - severity_penalty - iteration_penalty));
          verd = (if high_severity_findings \<noteq> [] then FAIL
                  else if medium_severity_findings \<noteq> [] then WARN
                  else if findings state \<noteq> [] then NEEDS_WORK
                  else PASS);
          findings_summary = str_nat (length (findings state)) @ '' findings'' @
            (if high_severity_findings \<noteq> []
               then '' (including '' @ str_nat (length high_severity_findings)
                    @ '' high-severity issues)''
             else if medium_severity_findings \<noteq> []
               then '' (including '' @ str_nat (length medium_severity_findings)
                    @ '' medium-severity issues)''
             else []);
          summ = ''Review completed with '' @ findings_summary @ '' in ''
            @ str_int (current_iteration state) @ '' iterations'' @
            (if current_iteration state \<ge> max_iterations template \<and> findings state \<noteq> []
               then ''. Review may benefit from additional context or manual review.''
             else [])
      in \<lparr>verdict = verd, confidence = conf, summary = summ,
          report_specialty = specialty state, report_findings = findings state,
          report_context_gathered = context_gathered state,
          iterations_used = current_iteration state,
          report_needs_more_context = False\<rparr>)"

text \<open>
  The \<^verbatim>\<open>try\<close> block: the two comprehensions, then the constructor. \<open>Inl\<close> carries the
  text of the exception that leaves the block.
\<close>

definition finalize_try ::
  "review_template \<Rightarrow> review_agent_state \<Rightarrow> string + review_agent_verdict" where
  "finalize_try template state =
     and_then (select_findings ''high'' (findings state)) (\<lambda>high_severity_findings.
     and_then (select_findings ''medium'' (findings state)) (\<lambda>medium_severity_findings.
     construct_verdict
       (finalize_report template state high_severity_findings medium_severity_findings)))"

text \<open>The report built in the \<^verbatim>\<open>except\<close> handler, for the error text \<open>e\<close>.\<close>

definition finalize_error_report :: "string \<Rightarrow> review_agent_state \<Rightarrow> review_agent_verdict" where
  "finalize_error_report e state =
     \<lparr>verdict = NEEDS_WORK, confidence = 1 / 10,
      summary = ''Review completed with error: '' @ e,
      report_specialty = specialty state, report_findings = [],
      report_context_gathered = context_gathered state,
      iterations_used = current_iteration state,
      report_needs_more_context = False\<rparr>"

text \<open>
  \<^verbatim>\<open>_review_agent_finalize\<close>: the report of the \<^verbatim>\<open>try\<close> block, or, for any exception
  raised in it, the handler's report; a validation error raised inside the handler
  leaves the function (\<open>Inl\<close>).
\<close>

definition review_agent_finalize ::
  "review_template \<Rightarrow> review_agent_state \<Rightarrow> string + review_agent_verdict" where
  "review_agent_finalize template state =
     (case finalize_try template state of
        Inr v \<Rightarrow> Inr v
      | Inl e \<Rightarrow> construct_verdict (finalize_error_report e state))"

text \<open>
  The spec's \<open>clamp(lo, hi, x)\<close>, and what the type \<^verbatim>\<open>ReviewAgentState\<close> guarantees of a
  state that reaches \<^verbatim>\<open>finalize\<close>: a specialty of the \<^verbatim>\<open>Literal\<close>, findings and context
  records that satisfy their schemas, and an iteration counter of at least one.
\<close>

definition clamp :: "rat \<Rightarrow> rat \<Rightarrow> rat \<Rightarrow> rat" where
  "clamp lo hi x = max lo (min hi x)"

definition state_well_typed :: "review_agent_state \<Rightarrow> bool" where
  "state_well_typed s \<longleftrightarrow>
     specialty s \<in> set SPECIALTIES \<and> list_all validate_finding (findings s) \<and>
     list_all validate_gathered (context_gathered s) \<and> 1 \<le> current_iteration s"

text \<open>A state used to evaluate the definitions: one high and one medium finding.\<close>

definition example_finding :: "severity \<Rightarrow> finding" where
  "example_finding sev =
     \<lparr>finding_id = ''f1'', finding_iteration = 1, severity = sev, finding_type = ''bug'',
      finding_file = ''src/auth.py'', finding_line = 3,
      description = ''password compared in clear text''\<rparr>"

definition example_gathered :: gathered where
  "example_gathered =
     \<lparr>g_iteration = 2, g_context_type = ''git_history'', g_result = Found ''two commits'',
      g_failed = False, g_cost_usd = 1 / 1000, g_tokens = 12,
      g_cache_key = ''git_history::src/auth.py''\<rparr>"

definition example_state :: review_agent_state where
  "example_state =
     \<lparr>specialty = ''security'', context_gathered = [example_gathered],
      findings = [example_finding High, example_finding Medium],
      reasoning_history = [], current_iteration = 2, context_requests_this_iteration = [],
      needs_more_context = False, final_report = None\<rparr>"

section \<open>Context resolution (factory/agent_factory.py, \<^verbatim>\<open>_spawn_context_agents\<close>)\<close>

text \<open>
  The context agent is a function of task, target files and query that returns the
  result dict, or raises (\<open>Inl\<close>). The external store keeps each entry with the
  instant at which it expires; a stored text that \<^verbatim>\<open>json.loads\<close> rejects (or that is
  empty) is \<open>Undecodable\<close>. When \<open>kv_raises\<close> is set every command of the client
  raises. The in-memory cache is \<^verbatim>\<open>getattr(state, 'context_cache', None)\<close>: \<open>None\<close> when
  the state object has no such attribute, as is the case for \<^verbatim>\<open>ReviewAgentState\<close>.
\<close>

record tool_result =
  context_found :: string
  cost :: rat
  tokens :: nat

type_synonym context_agent = "string \<Rightarrow> string list \<Rightarrow> string \<Rightarrow> string + tool_result"

datatype redis_value = JsonText gathered | Undecodable

record redis_kv =
  kv_entries :: "(string \<times> redis_value \<times> nat) list"
  kv_raises :: bool

record resolver_world =
  context_cache :: "(string \<times> gathered) list option"
  redis_client :: "redis_kv option"
  tool_invocations :: nat

definition redis_get :: "redis_kv \<Rightarrow> nat \<Rightarrow> string \<Rightarrow> string + redis_value option" where
  "redis_get r now k =
     (if kv_raises r then Inl ''ConnectionError''
      else Inr (case map_of (kv_entries r) k of
                  None \<Rightarrow> None
                | Some (v, expires_at) \<Rightarrow> if now < expires_at then Some v else None))"

definition redis_setex ::
  "redis_kv \<Rightarrow> nat \<Rightarrow> string \<Rightarrow> nat \<Rightarrow> redis_value \<Rightarrow> string + redis_kv" where
  "redis_setex r now k ttl v =
     (if kv_raises r then Inl ''ConnectionError''
      else Inr (r\<lparr>kv_entries := AList.update k (v, now + ttl) (kv_entries r)\<rparr>))"

definition cache_key_of :: "string \<Rightarrow> context_request \<Rightarrow> string" where
  "cache_key_of context_type req =
     context_type @ '':'' @ (case req_query req of None \<Rightarrow> [] | Some q \<Rightarrow> q) @ '':''
       @ join '','' (case req_files req of None \<Rightarrow> [] | Some fs \<Rightarrow> fs)"

text \<open>The first cache check: \<^verbatim>\<open>if context_cache and cache_key in context_cache\<close>.\<close>

definition memory_lookup :: "(string \<times> gathered) list option \<Rightarrow> string \<Rightarrow> gathered option" where
  "memory_lookup cc k = (case cc of None \<Rightarrow> None | Some m \<Rightarrow> map_of m k)"

text \<open>
  The second cache check, with its \<^verbatim>\<open>try ... except\<close>: no client, a command that
  raises, a missing or expired key and an undecodable text all fall through to the tool.
\<close>

definition redis_lookup :: "redis_kv option \<Rightarrow> nat \<Rightarrow> string \<Rightarrow> gathered option" where
  "redis_lookup rc now k =
     (case rc of
        None \<Rightarrow> None
      | Some r \<Rightarrow>
          (case redis_get r now k of
             Inl e \<Rightarrow> None
           | Inr None \<Rightarrow> None
           | Inr (Some Undecodable) \<Rightarrow> None
           | Inr (Some (JsonText g)) \<Rightarrow> Some g))"

text \<open>
  Storing a fresh result: \<^verbatim>\<open>setex\<close> on the external store when there is a client, and,
  in the \<^verbatim>\<open>else\<close> branch of that \<^verbatim>\<open>try\<close> (reached only when it did not raise), the
  assignment into the in-memory dict when the state has one.
\<close>

definition store_result ::
  "nat \<Rightarrow> nat \<Rightarrow> string \<Rightarrow> gathered \<Rightarrow> resolver_world \<Rightarrow> resolver_world" where
  "store_result cache_ttl now k item w =
     (case redis_client w of
        None \<Rightarrow> w\<lparr>context_cache := map_option (AList.update k item) (context_cache w)\<rparr>
      | Some r \<Rightarrow>
          (case redis_setex r now k cache_ttl (JsonText item) of
             Inl e \<Rightarrow> w
           | Inr r' \<Rightarrow>
               w\<lparr>redis_client := Some r',
                 context_cache := map_option (AList.update k item) (context_cache w)\<rparr>))"

text \<open>
  The body of the \<^verbatim>\<open>for req in ...\<close> loop. The result is the item appended to
  \<^verbatim>\<open>gathered\<close>, or the exception that leaves the function: a KeyError for a request
  without a type or with an unknown one, or the agent's own error under fail-fast.
\<close>

definition resolve_context_request ::
  "context_agent \<Rightarrow> nat \<Rightarrow> bool \<Rightarrow> int \<Rightarrow> nat \<Rightarrow> resolver_world \<Rightarrow> context_request
    \<Rightarrow> (string + gathered) \<times> resolver_world" where
  "resolve_context_request agent cache_ttl fail_fast iteration now w req =
     (case req_type req of
        None \<Rightarrow> (Inl ''KeyError'', w)
      | Some context_type \<Rightarrow>
          if context_type \<notin> set CONTEXT_AGENT_TEMPLATES then (Inl ''KeyError'', w)
          else
            let cache_key = cache_key_of context_type req in
            (case memory_lookup (context_cache w) cache_key of
               Some cached \<Rightarrow> (Inr cached, w)
             | None \<Rightarrow>
                 (case redis_lookup (redis_client w) now cache_key of
                    Some cached_data \<Rightarrow> (Inr cached_data, w)
                  | None \<Rightarrow>
                      let w1 = w\<lparr>tool_invocations := Suc (tool_invocations w)\<rparr> in
                      (case agent context_type
                              (case req_files req of None \<Rightarrow> [] | Some fs \<Rightarrow> fs)
                              (case req_query req of None \<Rightarrow> [] | Some q \<Rightarrow> q) of
                         Inl e \<Rightarrow>
                           (if fail_fast then Inl e
                            else Inr \<lparr>g_iteration = iteration, g_context_type = context_type,
                                      g_result = ErrorPayload e, g_failed = True,
                                      g_cost_usd = 0, g_tokens = 0, g_cache_key = cache_key\<rparr>,
                            w1)
                       | Inr result \<Rightarrow>
                           let gathered_item =
                                 \<lparr>g_iteration = iteration, g_context_type = context_type,
                                  g_result = Found (context_found result), g_failed = False,
                                  g_cost_usd = cost result, g_tokens = tokens result,
                                  g_cache_key = cache_key\<rparr>
                           in (Inr gathered_item,
                               store_result cache_ttl now cache_key gathered_item w1)))))"

fun spawn_loop ::
  "context_agent \<Rightarrow> nat \<Rightarrow> bool \<Rightarrow> int \<Rightarrow> nat \<Rightarrow> context_request list \<Rightarrow> gathered list
    \<Rightarrow> resolver_world \<Rightarrow> (string + gathered list) \<times> resolver_world" where
  "spawn_loop agent cache_ttl fail_fast iteration now [] acc w = (Inr acc, w)"
| "spawn_loop agent cache_ttl fail_fast iteration now (req # reqs) acc w =
     (case resolve_context_request agent cache_ttl fail_fast iteration now w req of
        (Inl e, w') \<Rightarrow> (Inl e, w')
      | (Inr g, w') \<Rightarrow> spawn_loop agent cache_ttl fail_fast iteration now reqs (acc @ [g]) w')"

text \<open>
  \<^verbatim>\<open>_spawn_context_agents\<close> with its partial update merged into the state:
  \<^verbatim>\<open>context_gathered\<close> accumulates, the request list is cleared.
\<close>

definition spawn_context_agents ::
  "context_agent \<Rightarrow> nat \<Rightarrow> bool \<Rightarrow> nat \<Rightarrow> resolver_world \<Rightarrow> review_agent_state
    \<Rightarrow> (string + review_agent_state) \<times> resolver_world" where
  "spawn_context_agents agent cache_ttl fail_fast now w state =
     (case spawn_loop agent cache_ttl fail_fast (current_iteration state) now
             (context_requests_this_iteration state) [] w of
        (Inl e, w') \<Rightarrow> (Inl e, w')
      | (Inr items, w') \<Rightarrow>
          (Inr (state\<lparr>context_gathered := context_gathered state @ items,
                      context_requests_this_iteration := []\<rparr>), w'))"

section \<open>Specialist subgraph: plan, analyze and the graph\<close>

text \<open>
  The reasoning backend's answer to the plan prompt: the call raised, the text was not
  JSON, or a JSON object whose keys \<^verbatim>\<open>context_requests\<close> and \<^verbatim>\<open>reasoning\<close> may be absent.
  Likewise for the analyze prompt. Each node's partial update is merged into the state
  under the field's policy: the three history lists accumulate, every other field is
  replaced. The analyze prompt is built, inside the \<^verbatim>\<open>try\<close> and before the backend
  is called, with \<^verbatim>\<open>json.dumps(state.context_gathered)\<close> and
  \<^verbatim>\<open>json.dumps(state.findings)\<close>; the elements are pydantic objects, so either call
  raises TypeError as soon as its list is not empty, and the step degrades to no new
  findings and no further context.
\<close>

datatype plan_reply =
  PlanRaised string | PlanUnparsable | PlanJson "context_request list option" "string option"

datatype analyze_reply =
  AnalyzeRaised string | AnalyzeUnparsable
  | AnalyzeJson "finding list option" "bool option" "string option"

definition review_agent_plan :: "plan_reply \<Rightarrow> review_agent_state \<Rightarrow> review_agent_state" where
  "review_agent_plan reply state =
     (case reply of
        PlanRaised e \<Rightarrow>
          state\<lparr>context_requests_this_iteration := [],
                reasoning_history := reasoning_history state @ [''Error in planning: '' @ e],
                current_iteration := current_iteration state + 1\<rparr>
      | PlanUnparsable \<Rightarrow>
          state\<lparr>context_requests_this_iteration := [],
                reasoning_history := reasoning_history state @ [''Failed to parse response''],
                current_iteration := current_iteration state + 1\<rparr>
      | PlanJson reqs reasoning \<Rightarrow>
          state\<lparr>context_requests_this_iteration := (case reqs of None \<Rightarrow> [] | Some rs \<Rightarrow> rs),
                reasoning_history := reasoning_history state
                  @ [case reasoning of None \<Rightarrow> [] | Some t \<Rightarrow> t],
                current_iteration := current_iteration state + 1\<rparr>)"

definition review_agent_analyze :: "analyze_reply \<Rightarrow> review_agent_state \<Rightarrow> review_agent_state" where
  "review_agent_analyze reply state =
     (if context_gathered state \<noteq> [] \<or> findings state \<noteq> []
      then state\<lparr>reasoning_history := reasoning_history state
                    @ [''Analysis failed: '' @ ''Object is not JSON serializable''],
                  needs_more_context := False\<rparr>
      else
        (case reply of
           AnalyzeRaised e \<Rightarrow>
             state\<lparr>reasoning_history := reasoning_history state @ [''Analysis failed: '' @ e],
                   needs_more_context := False\<rparr>
         | AnalyzeUnparsable \<Rightarrow>
             state\<lparr>reasoning_history := reasoning_history state @ [''Failed to parse analysis''],
                   needs_more_context := False\<rparr>
         | AnalyzeJson new_findings flag reasoning \<Rightarrow>
             state\<lparr>findings := findings state
                     @ (case new_findings of None \<Rightarrow> [] | Some fs \<Rightarrow> fs),
                   reasoning_history := reasoning_history state
                     @ [case reasoning of None \<Rightarrow> [] | Some t \<Rightarrow> t],
                   needs_more_context := (case flag of None \<Rightarrow> False | Some b \<Rightarrow> b)\<rparr>))"

datatype node = Plan | SpawnContext | Analyze | Finalize | End

text \<open>The conditional edge after \<^verbatim>\<open>analyze\<close> in \<^verbatim>\<open>create_review_agent_subgraph\<close>.\<close>

definition route_after_analyze :: "review_template \<Rightarrow> review_agent_state \<Rightarrow> node" where
  "route_after_analyze template s =
     (if needs_more_context s \<and> current_iteration s < max_iterations template
      then SpawnContext else Finalize)"

text \<open>
  What a run of the graph depends on besides the state: the backend's replies (the reply
  to the \<open>n\<close>-th analyze call may depend on \<open>n\<close> and on the state), the context agent,
  the cache lifetime and the time of the run. A configuration is the node about to run,
  the state, the caches, and the number of analyze calls made so far.
\<close>

record subgraph_env =
  plan_llm :: "review_agent_state \<Rightarrow> plan_reply"
  analyze_llm :: "nat \<Rightarrow> review_agent_state \<Rightarrow> analyze_reply"
  context_agent :: context_agent
  context_cache_ttl :: nat
  clock :: nat

record run_config =
  at_node :: node
  agent_state :: review_agent_state
  world :: resolver_world
  analyze_calls :: nat

definition subgraph_step ::
  "subgraph_env \<Rightarrow> review_template \<Rightarrow> run_config \<Rightarrow> string + run_config" where
  "subgraph_step E template c =
     (case at_node c of
        Plan \<Rightarrow>
          Inr (c\<lparr>at_node := SpawnContext,
                 agent_state := review_agent_plan (plan_llm E (agent_state c)) (agent_state c)\<rparr>)
      | SpawnContext \<Rightarrow>
          (case spawn_context_agents (context_agent E) (context_cache_ttl E) False (clock E)
                  (world c) (agent_state c) of
             (Inl e, w') \<Rightarrow> Inl e
           | (Inr s', w') \<Rightarrow> Inr (c\<lparr>at_node := Analyze, agent_state := s', world := w'\<rparr>))
      | Analyze \<Rightarrow>
          (let s' = review_agent_analyze (analyze_llm E (analyze_calls c) (agent_state c))
                      (agent_state c)
           in Inr (c\<lparr>at_node := route_after_analyze template s', agent_state := s',
                     analyze_calls := Suc (analyze_calls c)\<rparr>))
      | Finalize \<Rightarrow>
          (case review_agent_finalize template (agent_state c) of
             Inl e \<Rightarrow> Inl e
           | Inr v \<Rightarrow>
               Inr (c\<lparr>at_node := End, agent_state := (agent_state c)\<lparr>final_report := Some v\<rparr>\<rparr>))
      | End \<Rightarrow> Inr c)"

text \<open>
  Running the graph for at most \<open>n\<close> node executions. The graph may cycle, so the run is
  bounded by fuel; a result whose node is not \<open>End\<close> is a run that has not finished.
\<close>

fun run_subgraph ::
  "subgraph_env \<Rightarrow> review_template \<Rightarrow> nat \<Rightarrow> run_config \<Rightarrow> string + run_config" where
  "run_subgraph E template 0 c = Inr c"
| "run_subgraph E template (Suc n) c =
     (if at_node c = End then Inr c
      else case subgraph_step E template c of
             Inl e \<Rightarrow> Inl e
           | Inr c' \<Rightarrow> run_subgraph E template n c')"

text \<open>
  The state the orchestrator hands to a specialist (\<^verbatim>\<open>_run_single_agent\<close>), and the
  configuration in which its subgraph starts.
\<close>

definition initial_agent_state :: "string \<Rightarrow> review_agent_state" where
  "initial_agent_state agent_name =
     \<lparr>specialty = agent_name, context_gathered = [], findings = [], reasoning_history = [],
      current_iteration = 1, context_requests_this_iteration = [],
      needs_more_context = False, final_report = None\<rparr>"

definition start_config :: "string \<Rightarrow> resolver_world \<Rightarrow> run_config" where
  "start_config agent_name w =
     \<lparr>at_node = Plan, agent_state = initial_agent_state agent_name, world = w,
      analyze_calls = 0\<rparr>"

section \<open>Orchestrator: aggregation (agents/orchestrator.py)\<close>

text \<open>
  \<^verbatim>\<open>_determine_overall_verdict\<close>: the \<^verbatim>\<open>for\<close> loop with its early return is
  \<open>scan_reports\<close>; the function returns one of the strings NO_REVIEW, NEEDS_WORK, PASS.
\<close>

fun scan_reports :: "review_agent_verdict list \<Rightarrow> string" where
  "scan_reports [] = ''PASS''"
| "scan_reports (r # rs) =
     (if verdict r \<in> set [FAIL, NEEDS_WORK, WARN] then ''NEEDS_WORK'' else scan_reports rs)"

definition determine_overall_verdict :: "review_agent_verdict list \<Rightarrow> string" where
  "determine_overall_verdict reports =
     (if reports = [] then ''NO_REVIEW'' else scan_reports reports)"

section \<open>Orchestrator: running the specialists (agents/orchestrator.py)\<close>













section \<open>Orchestrator: loading memory (agents/orchestrator.py)\<close>

text \<open>\<^verbatim>\<open>s.split(sep)\<close> for a non-empty separator.\<close>

function split_from :: "string \<Rightarrow> string \<Rightarrow> string \<Rightarrow> string list" where
  "split_from sep acc [] = [rev acc]"
| "split_from sep acc (c # cs) =
     (if sep \<noteq> [] \<and> prefix sep (c # cs)
      then rev acc # split_from sep [] (drop (length sep) (c # cs))
      else split_from sep (c # acc) cs)"
  by pat_completeness auto
termination
  by (relation "measure (\<lambda>(sep, acc, s). length s)") auto

definition py_split :: "string \<Rightarrow> string \<Rightarrow> string list" where
  "py_split s sep = split_from sep [] s"

record pr_metadata =
  pr_number :: int
  pr_url :: string

record pr_review_state =
  pr_metadata :: pr_metadata
  changed_files :: "string list"
  repo_memory :: "(string \<times> json) list"
  similar_prs :: "(string \<times> json) list list"
  repo_conventions :: "string list"

text \<open>
  The partial update \<^verbatim>\<open>load_memory\<close> returns: a field is \<open>None\<close> when the dict has no
  such key.
\<close>

record memory_update =
  update_repo_memory :: "(string \<times> json) list option"
  update_similar_prs :: "(string \<times> json) list list option"
  update_repo_conventions :: "string list option"

text \<open>
  The surroundings of \<^verbatim>\<open>load_memory\<close>: the settings, whether \<^verbatim>\<open>asyncpg\<close> was imported,
  whether connecting and closing succeed, what the query returns or raises, and, for each
  path, whether the file is absent, readable with some content, or raises when opened
  or read.
\<close>

datatype file_probe = Absent | Content string | Unreadable string

record memory_env =
  learning_enabled :: bool
  asyncpg_available :: bool
  postgres_url :: "string option"
  db_connect :: "string \<Rightarrow> bool"
  db_fetch :: "string \<Rightarrow> int \<Rightarrow> string list \<Rightarrow> string + (string \<times> json) list list"
  db_close :: bool
  read_file :: "string \<Rightarrow> file_probe"

definition repo_name_of :: "string \<Rightarrow> string" where
  "repo_name_of url =
     (if url = [] then ''unknown/repo''
      else let parts = py_split url ''github.com/'' in
        if length parts > 1 then
          (let repo_parts = py_split (parts ! 1) ''/'' in
           if length repo_parts \<ge> 2 then (repo_parts ! 0) @ ''/'' @ (repo_parts ! 1)
           else ''unknown/repo'')
        else ''unknown/repo'')"

definition find_similar_prs :: "memory_env \<Rightarrow> pr_review_state \<Rightarrow> (string \<times> json) list list" where
  "find_similar_prs env state =
     (case postgres_url env of
        None \<Rightarrow> []
      | Some url \<Rightarrow>
          if \<not> asyncpg_available env \<or> url = [] then []
          else if \<not> db_connect env url then []
          else (case db_fetch env (repo_name_of (pr_url (pr_metadata state)))
                       (pr_number (pr_metadata state)) (changed_files state) of
                  Inl e \<Rightarrow> []
                | Inr rows \<Rightarrow> if db_close env then rows else []))"

definition default_conventions :: "string list" where
  "default_conventions =
     [''Use type hints for all public functions'',
      ''Include docstrings for public APIs'',
      ''Follow existing code style patterns'']"

definition potential_files :: "string list" where
  "potential_files = [''.github/CONTRIBUTING.md'', ''AGENTS.md'', ''CONTRIBUTING.md'']"

definition load_repo_conventions :: "memory_env \<Rightarrow> string list" where
  "load_repo_conventions env =
     foldl (\<lambda>conventions file_path.
              case read_file env file_path of
                Content content \<Rightarrow>
                  conventions @ [''Derived from '' @ file_path @ '': ''
                                  @ take 100 (take 1024 content) @ ''...'']
              | Absent \<Rightarrow> conventions
              | Unreadable e \<Rightarrow> conventions)
       default_conventions potential_files"

definition load_memory :: "memory_env \<Rightarrow> pr_review_state \<Rightarrow> memory_update" where
  "load_memory env state =
     \<lparr>update_repo_memory =
        (if repo_memory state = []
         then Some [(''common_issues'', JArr []), (''review_patterns'', JObj []),
                    (''false_positive_patterns'', JArr []), (''last_updated'', JNull)]
         else None),
      update_similar_prs =
        (if similar_prs state = []
         then Some (if learning_enabled env then find_similar_prs env state else [])
         else None),
      update_repo_conventions =
        (if repo_conventions state = [] then Some (load_repo_conventions env) else None)\<rparr>"

section \<open>Workflow queue (agents/workflow_queue.py)\<close>

text \<open>
  The backing store: hash records, lists and the lifetime set on a key. A value handed to
  or by the client is bytes or \<^verbatim>\<open>None\<close>. A key without fields is a key that does not
  exist. The exceptions are those the queue's code can meet: the client's encoder raises
  DataError for a value that is \<^verbatim>\<open>None\<close>, and \<^verbatim>\<open>.decode()\<close> on \<^verbatim>\<open>None\<close> raises
  AttributeError.
\<close>

datatype hval = Bytes string | PyNone

datatype py_exception =
  KeyError string | JSONDecodeError | ValueError string | ValidationError string
  | AttributeError | DataError

record redis_db =
  hashes :: "string \<Rightarrow> (string \<times> hval) list"
  lists :: "string \<Rightarrow> string list"
  expiry :: "string \<Rightarrow> nat option"

definition hgetall :: "redis_db \<Rightarrow> string \<Rightarrow> (string \<times> hval) list" where
  "hgetall db k = hashes db k"

text \<open>
  \<^verbatim>\<open>hset\<close>: the client encodes every field and value before it sends the command, so a
  mapping with a \<^verbatim>\<open>None\<close> value raises and writes nothing.
\<close>

definition hset ::
  "redis_db \<Rightarrow> string \<Rightarrow> (string \<times> hval) list \<Rightarrow> py_exception + redis_db" where
  "hset db k mapping =
     (if list_ex (\<lambda>fv. snd fv = PyNone) mapping then Inl DataError
      else Inr (db\<lparr>hashes := (hashes db)
             (k := foldl (\<lambda>h fv. AList.update (fst fv) (snd fv) h) (hashes db k) mapping)\<rparr>))"

definition lpush :: "redis_db \<Rightarrow> string \<Rightarrow> string \<Rightarrow> redis_db" where
  "lpush db k v = db\<lparr>lists := (lists db)(k := v # lists db k)\<rparr>"

definition rpop :: "redis_db \<Rightarrow> string \<Rightarrow> string option \<times> redis_db" where
  "rpop db k =
     (if lists db k = [] then (None, db)
      else (Some (last (lists db k)), db\<lparr>lists := (lists db)(k := butlast (lists db k))\<rparr>))"

definition expire :: "redis_db \<Rightarrow> string \<Rightarrow> nat \<Rightarrow> redis_db" where
  "expire db k seconds =
     (if hashes db k = [] \<and> lists db k = [] then db
      else db\<lparr>expiry := (expiry db)(k := Some seconds)\<rparr>)"

record workflow_request =
  request_id :: string
  requesting_agent :: string
  request_type :: string
  params :: "(string \<times> json) list"
  timestamp :: nat
  status :: string
  request_result :: "(string \<times> json) list option"

definition queue_key :: string where
  "queue_key = ''workflow:queue''"

definition generate_request_id :: "pylib \<Rightarrow> workflow_request \<Rightarrow> string" where
  "generate_request_id L request =
     md5_hexdigest L (request_type request @ '':'' @ json_dumps L True (JObj (params request)))"

definition get_request_key :: "string \<Rightarrow> string" where
  "get_request_key rid = ''workflow:request:'' @ rid"

text \<open>
  \<^verbatim>\<open>enqueue\<close>; \<open>timeout\<close> is \<^verbatim>\<open>settings.workflow.queue_processing_timeout\<close>. The
  result is the returned id, or the exception that leaves the function, with the store
  as the call leaves it.
\<close>

definition enqueue ::
  "pylib \<Rightarrow> nat \<Rightarrow> redis_db \<Rightarrow> workflow_request \<Rightarrow> (py_exception + string) \<times> redis_db" where
  "enqueue L timeout db request =
     (let rid = generate_request_id L request;
          request_key = get_request_key rid;
          existing_request = hgetall db request_key
      in if existing_request \<noteq> []
            \<and> map_of existing_request ''status''
                \<in> set [Some (Bytes ''pending''), Some (Bytes ''in_progress'')]
         then (Inr rid, db)
         else
           let request_data =
                 [(''request_id'', Bytes rid),
                  (''requesting_agent'', Bytes (requesting_agent request)),
                  (''request_type'', Bytes (request_type request)),
                  (''params'', Bytes (json_dumps L False (JObj (params request)))),
                  (''timestamp'', Bytes (isoformat L (timestamp request))),
                  (''status'', Bytes ''pending''),
                  (''result'', PyNone)]
           in (case hset db request_key request_data of
                 Inl e \<Rightarrow> (Inl e, db)
               | Inr db1 \<Rightarrow>
                   (let db2 = lpush db1 queue_key rid;
                        db3 = expire db2 request_key (timeout * 2)
                    in (Inr rid, db3))))"

definition mark_in_progress :: "redis_db \<Rightarrow> string \<Rightarrow> py_exception + redis_db" where
  "mark_in_progress db rid = hset db (get_request_key rid) [(''status'', Bytes ''in_progress'')]"

definition mark_completed ::
  "pylib \<Rightarrow> nat \<Rightarrow> redis_db \<Rightarrow> string \<Rightarrow> (string \<times> json) list \<Rightarrow> py_exception + redis_db" where
  "mark_completed L now db rid res =
     hset db (get_request_key rid)
       [(''status'', Bytes ''completed''),
        (''result'', Bytes (json_dumps L False (JObj res))),
        (''completed_at'', Bytes (isoformat L now))]"

definition mark_failed ::
  "pylib \<Rightarrow> nat \<Rightarrow> redis_db \<Rightarrow> string \<Rightarrow> string \<Rightarrow> py_exception + redis_db" where
  "mark_failed L now db rid err =
     hset db (get_request_key rid)
       [(''status'', Bytes ''failed''),
        (''result'', Bytes (json_dumps L False (JObj [(''error'', JStr err)]))),
        (''failed_at'', Bytes (isoformat L now))]"

definition get_request_status :: "redis_db \<Rightarrow> string \<Rightarrow> py_exception + string option" where
  "get_request_status db rid =
     (let request_data = hgetall db (get_request_key rid)
      in if request_data = [] then Inr None
         else (case map_of request_data ''status'' of
                 None \<Rightarrow> Inr (Some ''pending'')
               | Some (Bytes b) \<Rightarrow> Inr (Some b)
               | Some PyNone \<Rightarrow> Inl AttributeError))"

text \<open>
  Reading a request back. \<^verbatim>\<open>request_data[b'k'].decode()\<close> raises KeyError for a missing
  field; the arguments of the constructor are evaluated in the order written, and the
  constructor checks the two \<^verbatim>\<open>Literal\<close> fields and that \<^verbatim>\<open>params\<close> is a dict.
\<close>

definition field :: "(string \<times> hval) list \<Rightarrow> string \<Rightarrow> py_exception + string" where
  "field request_data k =
     (case map_of request_data k of
        None \<Rightarrow> Inl (KeyError k)
      | Some PyNone \<Rightarrow> Inl AttributeError
      | Some (Bytes b) \<Rightarrow> Inr b)"

definition REQUEST_TYPES :: "string list" where
  "REQUEST_TYPES = [''run_ci'', ''get_test_results'', ''run_specific_test'']"

definition STATUSES :: "string list" where
  "STATUSES = [''pending'', ''in_progress'', ''completed'', ''failed'']"

definition loads_or_raise :: "pylib \<Rightarrow> string \<Rightarrow> py_exception + json" where
  "loads_or_raise L t = (case json_loads L t of None \<Rightarrow> Inl JSONDecodeError | Some j \<Rightarrow> Inr j)"

definition fromisoformat_or_raise :: "pylib \<Rightarrow> string \<Rightarrow> py_exception + nat" where
  "fromisoformat_or_raise L t =
     (case fromisoformat L t of None \<Rightarrow> Inl (ValueError t) | Some ts \<Rightarrow> Inr ts)"

definition construct_request ::
  "string \<Rightarrow> string \<Rightarrow> string \<Rightarrow> json \<Rightarrow> nat \<Rightarrow> string \<Rightarrow> py_exception + workflow_request" where
  "construct_request rid agent rtype pjson ts st =
     (if rtype \<notin> set REQUEST_TYPES then Inl (ValidationError ''request_type'')
      else (case pjson of
              JObj ps \<Rightarrow>
                (if st \<notin> set STATUSES then Inl (ValidationError ''status'')
                 else Inr \<lparr>request_id = rid, requesting_agent = agent, request_type = rtype,
                           params = ps, timestamp = ts, status = st, request_result = None\<rparr>)
            | JNull \<Rightarrow> Inl (ValidationError ''params'')
            | JBool b \<Rightarrow> Inl (ValidationError ''params'')
            | JNum i \<Rightarrow> Inl (ValidationError ''params'')
            | JStr t \<Rightarrow> Inl (ValidationError ''params'')
            | JArr xs \<Rightarrow> Inl (ValidationError ''params'')))"

definition parse_request :: "pylib \<Rightarrow> (string \<times> hval) list \<Rightarrow> py_exception + workflow_request" where
  "parse_request L request_data =
     and_then (field request_data ''request_id'') (\<lambda>rid.
     and_then (field request_data ''requesting_agent'') (\<lambda>agent.
     and_then (field request_data ''request_type'') (\<lambda>rtype.
     and_then (field request_data ''params'') (\<lambda>ptext.
     and_then (loads_or_raise L ptext) (\<lambda>pjson.
     and_then (field request_data ''timestamp'') (\<lambda>ttext.
     and_then (fromisoformat_or_raise L ttext) (\<lambda>ts.
     and_then (field request_data ''status'') (\<lambda>st.
     construct_request rid agent rtype pjson ts st))))))))"

text \<open>
  \<^verbatim>\<open>get_next_request\<close>: \<open>Inr None\<close> is the returned \<^verbatim>\<open>None\<close>, \<open>Inl\<close> an exception that
  the \<^verbatim>\<open>except (KeyError, json.JSONDecodeError)\<close> clause does not catch.
\<close>

definition get_next_request ::
  "pylib \<Rightarrow> redis_db \<Rightarrow> (py_exception + workflow_request option) \<times> redis_db" where
  "get_next_request L db =
     (case rpop db queue_key of
        (None, db') \<Rightarrow> (Inr None, db')
      | (Some rid, db') \<Rightarrow>
          if rid = [] then (Inr None, db')
          else
            let request_data = hgetall db' (get_request_key rid) in
            if request_data = [] then (Inr None, db')
            else (case parse_request L request_data of
                    Inr r \<Rightarrow> (Inr (Some r), db')
                  | Inl (KeyError k) \<Rightarrow> (Inr None, db')
                  | Inl JSONDecodeError \<Rightarrow> (Inr None, db')
                  | Inl e \<Rightarrow> (Inl e, db')))"

section \<open>Inputs used to state and to evaluate the properties\<close>

text \<open>
  A backend that asks for more context after every analysis and plans no requests, a
  world without any cache, and the template of the alignment specialist.
\<close>

definition insistent_env :: subgraph_env where
  "insistent_env =
     \<lparr>plan_llm = (\<lambda>s. PlanJson None None),
      analyze_llm = (\<lambda>n s. AnalyzeJson None (Some True) None),
      context_agent = (\<lambda>task files query. Inl ''unavailable''),
      context_cache_ttl = 3600, clock = 0\<rparr>"

definition no_cache_world :: resolver_world where
  "no_cache_world = \<lparr>context_cache = None, redis_client = None, tool_invocations = 0\<rparr>"

definition alignment_template :: review_template where
  "alignment_template = \<lparr>max_iterations = 3, context_agent_budget = 2\<rparr>"

text \<open>
  An instance of the library functions, an empty store, a request, and a store that
  holds the pending record of that request with its id queued.
\<close>

definition example_lib :: pylib where
  "example_lib =
     \<lparr>md5_hexdigest = (\<lambda>s. take 32 s),
      json_string = (\<lambda>s. CHR 0x22 # s @ [CHR 0x22]),
      json_loads = (\<lambda>t. if t = ''{}'' then Some (JObj []) else None),
      isoformat = str_nat,
      fromisoformat = (\<lambda>t. if t = ''0'' then Some 0 else None)\<rparr>"

definition empty_db :: redis_db where
  "empty_db = \<lparr>hashes = (\<lambda>k. []), lists = (\<lambda>k. []), expiry = (\<lambda>k. None)\<rparr>"

definition example_request :: "string \<Rightarrow> string \<Rightarrow> nat \<Rightarrow> workflow_request" where
  "example_request rid agent ts =
     \<lparr>request_id = rid, requesting_agent = agent, request_type = ''run_ci'',
      params = [], timestamp = ts, status = ''pending'', request_result = None\<rparr>"

definition example_db :: redis_db where
  "example_db =
     \<lparr>hashes = (\<lambda>k. if k = ''workflow:request:run_ci:{}''
                     then [(''request_id'', Bytes ''run_ci:{}''),
                           (''requesting_agent'', Bytes ''alignment_agent''),
                           (''request_type'', Bytes ''run_ci''), (''params'', Bytes ''{}''),
                           (''timestamp'', Bytes ''0''), (''status'', Bytes ''pending'')]
                     else []),
      lists = (\<lambda>k. if k = ''workflow:queue'' then [''run_ci:{}''] else []),
      expiry = (\<lambda>k. if k = ''workflow:request:run_ci:{}'' then Some 600 else None)\<rparr>"

text \<open>
  The record under a request's id is active when it exists with status pending or
  in_progress; \<open>new_request_data\<close> is the mapping \<^verbatim>\<open>enqueue\<close> hands to \<^verbatim>\<open>hset\<close>
  otherwise.
\<close>

definition new_request_data :: "pylib \<Rightarrow> workflow_request \<Rightarrow> (string \<times> hval) list" where
  "new_request_data L request =
     [(''request_id'', Bytes (generate_request_id L request)),
      (''requesting_agent'', Bytes (requesting_agent request)),
      (''request_type'', Bytes (request_type request)),
      (''params'', Bytes (json_dumps L False (JObj (params request)))),
      (''timestamp'', Bytes (isoformat L (timestamp request))),
      (''status'', Bytes ''pending''),
      (''result'', PyNone)]"

definition is_active :: "pylib \<Rightarrow> redis_db \<Rightarrow> workflow_request \<Rightarrow> bool" where
  "is_active L db r \<longleftrightarrow>
     hgetall db (get_request_key (generate_request_id L r)) \<noteq> [] \<and>
     map_of (hgetall db (get_request_key (generate_request_id L r))) ''status''
       \<in> set [Some (Bytes ''pending''), Some (Bytes ''in_progress'')]"

text \<open>
  A sequence of lifecycle calls on one request id, and the status a reader observes
  after each of them. A call leaves the store it wrote, or, had it raised, the store as
  it was.
\<close>

datatype queue_op = MarkInProgress | MarkCompleted "(string \<times> json) list" | MarkFailed string

definition apply_op :: "pylib \<Rightarrow> nat \<Rightarrow> string \<Rightarrow> redis_db \<Rightarrow> queue_op \<Rightarrow> redis_db" where
  "apply_op L now rid db op =
     (case (case op of
              MarkInProgress \<Rightarrow> mark_in_progress db rid
            | MarkCompleted res \<Rightarrow> mark_completed L now db rid res
            | MarkFailed err \<Rightarrow> mark_failed L now db rid err) of
        Inr db' \<Rightarrow> db'
      | Inl e \<Rightarrow> db)"

definition target_status :: "queue_op \<Rightarrow> string" where
  "target_status op =
     (case op of MarkInProgress \<Rightarrow> ''in_progress'' | MarkCompleted res \<Rightarrow> ''completed''
      | MarkFailed err \<Rightarrow> ''failed'')"

fun status_trace ::
  "pylib \<Rightarrow> nat \<Rightarrow> string \<Rightarrow> redis_db \<Rightarrow> queue_op list \<Rightarrow> (py_exception + string option) list" where
  "status_trace L now rid db [] = []"
| "status_trace L now rid db (op # ops) =
     get_request_status (apply_op L now rid db op) rid
       # status_trace L now rid (apply_op L now rid db op) ops"

text \<open>
  A store whose only queued id has a record with a status outside the schema, and a store
  whose only queued id has no record.
\<close>

definition bogus_db :: redis_db where
  "bogus_db =
     \<lparr>hashes = (\<lambda>k. if k = ''workflow:request:abc''
                     then [(''request_id'', Bytes ''abc''), (''requesting_agent'', Bytes ''x''),
                           (''request_type'', Bytes ''run_ci''), (''params'', Bytes ''{}''),
                           (''timestamp'', Bytes ''0''), (''status'', Bytes ''bogus'')]
                     else []),
      lists = (\<lambda>k. if k = ''workflow:queue'' then [''abc''] else []),
      expiry = (\<lambda>k. None)\<rparr>"

definition orphan_db :: redis_db where
  "orphan_db = lpush empty_db queue_key ''abc''"



text \<open>
  Surroundings in which every lookup fails (the database refuses the connection, no
  convention file can be read), a state without hints, and a state whose hints were
  supplied by the caller.
\<close>

definition failing_env :: memory_env where
  "failing_env =
     \<lparr>learning_enabled = True, asyncpg_available = True,
      postgres_url = Some ''postgresql://db/reviews'',
      db_connect = (\<lambda>url. False),
      db_fetch = (\<lambda>repo n files. Inl ''connection refused''),
      db_close = False,
      read_file = (\<lambda>p. Unreadable ''permission denied'')\<rparr>"

definition blank_state :: pr_review_state where
  "blank_state =
     \<lparr>pr_metadata = \<lparr>pr_number = 7, pr_url = ''https://github.com/acme/widgets/pull/7''\<rparr>,
      changed_files = [''src/auth.py''], repo_memory = [], similar_prs = [],
      repo_conventions = []\<rparr>"

definition supplied_state :: pr_review_state where
  "supplied_state =
     \<lparr>pr_metadata = \<lparr>pr_number = 7, pr_url = ''https://github.com/acme/widgets/pull/7''\<rparr>,
      changed_files = [''src/auth.py''], repo_memory = [(''last_updated'', JNull)],
      similar_prs = [[(''pr_number'', JNum 3)]],
      repo_conventions = [''Tabs, not spaces'']\<rparr>"

text \<open>
  A context agent that always succeeds, a request, a world whose state carries an empty
  in-memory cache, and a world with an empty external store only.
\<close>

definition example_agent :: context_agent where
  "example_agent task files query =
     Inr \<lparr>context_found = ''three commits touch '' @ join '','' files, cost = 1 / 1000,
          tokens = 12\<rparr>"

definition example_context_request :: context_request where
  "example_context_request =
     \<lparr>req_type = Some ''git_history'', req_query = Some ''auth'',
      req_files = Some [''src/auth.py'']\<rparr>"

definition memory_world :: resolver_world where
  "memory_world = \<lparr>context_cache = Some [], redis_client = None, tool_invocations = 0\<rparr>"

definition redis_world :: resolver_world where
  "redis_world =
     \<lparr>context_cache = None, redis_client = Some \<lparr>kv_entries = [], kv_raises = False\<rparr>,
      tool_invocations = 0\<rparr>"

text \<open>
  A cache tier is usable for two resolutions at the instants \<open>now1\<close> and \<open>now2\<close> when
  the state carries an in-memory cache and the external store does not raise, or when
  there is an external store that does not raise and the second instant lies inside the
  lifetime that starts at the first. \<open>fresh_item\<close> is the record built from a tool
  result.
\<close>

definition cache_usable :: "resolver_world \<Rightarrow> nat \<Rightarrow> nat \<Rightarrow> nat \<Rightarrow> bool" where
  "cache_usable w cache_ttl now1 now2 \<longleftrightarrow>
     (context_cache w \<noteq> None \<and> (case redis_client w of None \<Rightarrow> True | Some r \<Rightarrow> \<not> kv_raises r))
     \<or> (case redis_client w of None \<Rightarrow> False
         | Some r \<Rightarrow> \<not> kv_raises r \<and> now2 < now1 + cache_ttl)"

definition fresh_item :: "string \<Rightarrow> context_request \<Rightarrow> int \<Rightarrow> tool_result \<Rightarrow> gathered" where
  "fresh_item context_type req iteration result =
     \<lparr>g_iteration = iteration, g_context_type = context_type,
      g_result = Found (context_found result), g_failed = False,
      g_cost_usd = cost result, g_tokens = tokens result,
      g_cache_key = cache_key_of context_type req\<rparr>"

section \<open>Properties\<close>

subsection \<open>Aggregation precedence\<close>

lemma scan_reports_cases:
  "scan_reports rs = (if \<exists>r \<in> set rs. verdict r \<noteq> PASS then ''NEEDS_WORK'' else ''PASS'')"
proof (induction rs)
  case Nil
  show ?case by simp
next
  case (Cons r rs)
  show ?case
  proof (cases "verdict r")
    case PASS
    with Cons show ?thesis by simp
  qed (simp_all)
qed

text \<open>
  C4. For every list of verdicts the aggregate is NO_REVIEW exactly when the list is empty,
  PASS exactly when the list is non-empty and every verdict is PASS, and NEEDS_WORK
  in every other case, that is exactly when some verdict is FAIL, NEEDS_WORK or WARN.
\<close>

theorem C4_aggregation_precedence:
  "(determine_overall_verdict V = ''NO_REVIEW'' \<longleftrightarrow> V = []) \<and>
   (determine_overall_verdict V = ''PASS'' \<longleftrightarrow> V \<noteq> [] \<and> (\<forall>r \<in> set V. verdict r = PASS)) \<and>
   (determine_overall_verdict V = ''NEEDS_WORK'' \<longleftrightarrow>
      (\<exists>r \<in> set V. verdict r = FAIL \<or> verdict r = NEEDS_WORK \<or> verdict r = WARN)) \<and>
   determine_overall_verdict V \<in> {''NO_REVIEW'', ''PASS'', ''NEEDS_WORK''}"
proof -
  have ne: "(v = FAIL \<or> v = NEEDS_WORK \<or> v = WARN) = (v \<noteq> PASS)" for v
    by (cases v) simp_all
  show ?thesis
    by (cases V) (simp_all add: determine_overall_verdict_def scan_reports_cases ne)
qed

theorem C4_aggregation_witness:
  "determine_overall_verdict [] = ''NO_REVIEW'' \<and>
   determine_overall_verdict
     [finalize_report \<lparr>max_iterations = 2, context_agent_budget = 2\<rparr> example_state
        [example_finding High] [example_finding Medium]]
     = ''NEEDS_WORK''"
  using C4_aggregation_precedence
    [of "[finalize_report \<lparr>max_iterations = 2, context_agent_budget = 2\<rparr> example_state
            [example_finding High] [example_finding Medium]]"]
    C4_aggregation_precedence [of "[]"]
  by (simp add: finalize_report_def example_state_def example_finding_def Let_def)

subsection \<open>Finalize: confidence and outcome\<close>

lemma clamp_bounds:
  fixes x :: rat
  shows "0 \<le> max (1 / 10) (min (95 / 100) x)" and "max (1 / 10) (min (95 / 100) x) \<le> 1"
  by (simp_all add: max_def min_def)

lemma select_findings_raises:
  "fs \<noteq> [] \<Longrightarrow> select_findings sev fs = Inl no_attribute_get"
  by (cases fs) (simp_all add: finding_get_def)

lemma finalize_try_raises:
  "findings s \<noteq> [] \<Longrightarrow> finalize_try t s = Inl no_attribute_get"
  by (simp add: finalize_try_def and_then_def select_findings_raises)

lemma finalize_try_no_findings:
  "findings s = [] \<Longrightarrow> finalize_try t s = construct_verdict (finalize_report t s [] [])"
  by (simp add: finalize_try_def and_then_def)

lemma finalize_report_accepted:
  assumes "state_well_typed s"
  shows "validate_verdict (finalize_report t s hs ms) = None"
proof -
  let ?r = "finalize_report t s hs ms"
  have c: "0 \<le> confidence ?r \<and> confidence ?r \<le> 1"
    unfolding finalize_report_def Let_def review_agent_verdict.simps
    using clamp_bounds by blast
  have l: "10 \<le> length (summary ?r)"
    by (simp add: finalize_report_def Let_def)
  have rest: "report_specialty ?r = specialty s" "report_findings ?r = findings s"
    "report_context_gathered ?r = context_gathered s" "iterations_used ?r = current_iteration s"
    by (simp_all add: finalize_report_def Let_def)
  from assms c l rest show ?thesis
    unfolding validate_verdict_def state_well_typed_def by (simp add: not_less)
qed

lemma finalize_error_report_accepted:
  assumes "state_well_typed s"
  shows "validate_verdict (finalize_error_report e s) = None"
  using assms
  by (simp add: validate_verdict_def state_well_typed_def finalize_error_report_def not_less)

text \<open>
  What \<^verbatim>\<open>_review_agent_finalize\<close> returns on a state of the schema: the handler's report
  as soon as the state holds a finding, the report of the \<^verbatim>\<open>try\<close> block otherwise.
\<close>

lemma finalize_with_findings:
  assumes "state_well_typed s" and "findings s \<noteq> []"
  shows "review_agent_finalize t s = Inr (finalize_error_report no_attribute_get s)"
  using assms
  by (simp add: review_agent_finalize_def finalize_try_raises construct_verdict_def
      finalize_error_report_accepted)

lemma finalize_without_findings:
  assumes "state_well_typed s" and "findings s = []"
  shows "review_agent_finalize t s = Inr (finalize_report t s [] [])"
  using assms
  by (simp add: review_agent_finalize_def finalize_try_no_findings construct_verdict_def
      finalize_report_accepted)

lemma finalize_returns:
  "state_well_typed s \<Longrightarrow> \<exists>v. review_agent_finalize t s = Inr v"
  by (cases "findings s = []") (simp_all add: finalize_with_findings finalize_without_findings)

lemma example_state_well_typed: "state_well_typed example_state"
  by (simp add: state_well_typed_def example_state_def example_finding_def
      example_gathered_def validate_finding_def validate_gathered_def SPECIALTIES_def
      CONTEXT_AGENT_TEMPLATES_def FINDING_TYPES_def)

lemma example_state_findings: "findings example_state \<noteq> []"
  by (simp add: example_state_def)

text \<open>
  C6. The confidence is not the clamped sum of the claim. For every state of the schema
  that holds at least one finding, \<^verbatim>\<open>f.get('severity')\<close> raises in the first
  comprehension, the handler takes over, and the verdict returned has the handler's
  confidence 0.1, whatever the numbers of context records, of high and of medium
  findings and the iteration counter are. For the state with one context record, one
  high and one medium finding and current_iteration = max_iterations = 2 the claim's
  formula gives 0.52.
\<close>

theorem C6_confidence_with_findings:
  assumes "state_well_typed s" and "findings s \<noteq> []"
  shows "\<exists>v. review_agent_finalize t s = Inr v \<and> confidence v = 1 / 10"
  using assms by (simp add: finalize_with_findings finalize_error_report_def)

theorem C6_confidence_with_findings_witness:
  "state_well_typed example_state \<and> findings example_state \<noteq> [] \<and>
   (\<exists>v. review_agent_finalize \<lparr>max_iterations = 2, context_agent_budget = 2\<rparr> example_state = Inr v
      \<and> confidence v = 1 / 10) \<and>
   clamp (1 / 10) (95 / 100)
     (8 / 10
      + min (1 / 10) (2 / 100 * of_nat (length (context_gathered example_state)))
      - 2 / 10 * of_nat (length (filter (\<lambda>f. severity f = High) (findings example_state)))
      - 1 / 10 * of_nat (length (filter (\<lambda>f. severity f = Medium) (findings example_state)))
      - 1 / 10 * of_int (max 0 (current_iteration example_state - 2)))
     = 13 / 25"
  using C6_confidence_with_findings [OF example_state_well_typed example_state_findings,
      of "\<lparr>max_iterations = 2, context_agent_budget = 2\<rparr>"]
    example_state_well_typed
  by (simp add: clamp_def example_state_def example_finding_def)

text \<open>
  C7. The outcome does not follow the severities. For every state of the schema the
  verdict returned is PASS when the state holds no finding; when it holds one, of
  whatever severity, the handler's verdict is returned: NEEDS_WORK, with an empty list
  of findings. FAIL and WARN are never produced. For the state with one high and one
  medium finding the claim says FAIL.
\<close>

theorem C7_outcome_ignores_severity:
  assumes "state_well_typed s"
  shows "\<exists>v. review_agent_finalize t s = Inr v \<and>
     verdict v = (if findings s = [] then PASS else NEEDS_WORK) \<and> report_findings v = []"
proof (cases "findings s = []")
  case True
  with assms show ?thesis
    by (simp add: finalize_without_findings finalize_report_def Let_def)
next
  case False
  with assms show ?thesis
    by (simp add: finalize_with_findings finalize_error_report_def)
qed

theorem C7_outcome_ignores_severity_witness:
  "state_well_typed example_state \<and>
   severity (hd (findings example_state)) = High \<and>
   (\<exists>v. review_agent_finalize \<lparr>max_iterations = 2, context_agent_budget = 2\<rparr> example_state = Inr v
      \<and> verdict v = NEEDS_WORK \<and> report_findings v = [])"
  using C7_outcome_ignores_severity [OF example_state_well_typed,
      of "\<lparr>max_iterations = 2, context_agent_budget = 2\<rparr>"]
    example_state_well_typed
  by (simp add: example_state_def example_finding_def)

subsection \<open>Iteration bound of the specialist subgraph\<close>

lemma route_after_analyze_iff:
  "(route_after_analyze t s = SpawnContext \<longleftrightarrow>
      needs_more_context s \<and> current_iteration s < max_iterations t) \<and>
   (route_after_analyze t s = Finalize \<longleftrightarrow>
      \<not> (needs_more_context s \<and> current_iteration s < max_iterations t))"
  by (simp add: route_after_analyze_def)

lemma spawn_no_requests:
  "context_requests_this_iteration s = [] \<Longrightarrow>
   spawn_context_agents agent ttl ff now w s = (Inr s, w)"
  by (simp add: spawn_context_agents_def)

lemma analyze_keeps_iteration:
  "current_iteration (review_agent_analyze r s) = current_iteration s \<and>
   context_requests_this_iteration (review_agent_analyze r s) = context_requests_this_iteration s \<and>
   context_gathered (review_agent_analyze r s) = context_gathered s"
  by (cases r) (simp_all add: review_agent_analyze_def)

lemma analyze_more:
  assumes "context_gathered s = []" and "findings s = []"
  shows "needs_more_context (review_agent_analyze (AnalyzeJson None (Some True) r) s) \<and>
         findings (review_agent_analyze (AnalyzeJson None (Some True) r) s) = []"
  using assms by (simp add: review_agent_analyze_def)

lemma loop_round:
  assumes "at_node c = SpawnContext"
    and "context_requests_this_iteration (agent_state c) = []"
    and "current_iteration (agent_state c) < max_iterations t"
    and "context_gathered (agent_state c) = []"
    and "findings (agent_state c) = []"
    and "\<And>n s. \<exists>r. analyze_llm E n s = AnalyzeJson None (Some True) r"
  shows "\<exists>c'. run_subgraph E t (2 * k) c = Inr c' \<and> at_node c' = SpawnContext \<and>
           analyze_calls c' = analyze_calls c + k \<and>
           current_iteration (agent_state c') = current_iteration (agent_state c)"
  using assms(1-5)
proof (induction k arbitrary: c)
  case 0
  then show ?case by simp
next
  case (Suc k)
  obtain r where reply: "analyze_llm E (analyze_calls c) (agent_state c) = AnalyzeJson None (Some True) r"
    using assms(6) by blast
  let ?s' = "review_agent_analyze (AnalyzeJson None (Some True) r) (agent_state c)"
  let ?c1 = "c\<lparr>at_node := Analyze\<rparr>"
  let ?c2 = "c\<lparr>at_node := SpawnContext, agent_state := ?s', analyze_calls := Suc (analyze_calls c)\<rparr>"
  have s1: "subgraph_step E t c = Inr ?c1"
    using Suc.prems by (simp add: subgraph_step_def spawn_no_requests)
  have more: "needs_more_context ?s'" "findings ?s' = []"
    using analyze_more [OF Suc.prems(4) Suc.prems(5)] by blast+
  have route: "route_after_analyze t ?s' = SpawnContext"
    using Suc.prems more by (simp add: route_after_analyze_def analyze_keeps_iteration)
  have s2: "subgraph_step E t ?c1 = Inr ?c2"
    by (simp add: subgraph_step_def reply route Let_def)
  have two: "run_subgraph E t (2 * Suc k) c = run_subgraph E t (2 * k) ?c2"
    using Suc.prems(1) by (simp add: s1 s2)
  have "\<exists>c'. run_subgraph E t (2 * k) ?c2 = Inr c' \<and> at_node c' = SpawnContext \<and>
           analyze_calls c' = analyze_calls ?c2 + k \<and>
           current_iteration (agent_state c') = current_iteration (agent_state ?c2)"
    by (rule Suc.IH) (use Suc.prems more in \<open>simp_all add: analyze_keeps_iteration\<close>)
  then show ?case
    unfolding two by (simp add: analyze_keeps_iteration)
qed

text \<open>
  With max_iterations = 2 the counter, at 2 after the plan node, already fails the test of
  the edge, and the run ends after a single analyze iteration.
\<close>

lemma testing_specialist_stops:
  "map_of REVIEW_AGENT_TEMPLATES ''testing'' = Some \<lparr>max_iterations = 2, context_agent_budget = 1\<rparr> \<and>
   (\<exists>c. run_subgraph insistent_env \<lparr>max_iterations = 2, context_agent_budget = 1\<rparr> 4
          (start_config ''testing'' no_cache_world) = Inr c \<and>
        at_node c = End \<and> analyze_calls c = 1)"
  by (simp add: REVIEW_AGENT_TEMPLATES_def eval_nat_numeral start_config_def
      initial_agent_state_def subgraph_step_def insistent_env_def review_agent_plan_def
      spawn_context_agents_def review_agent_analyze_def route_after_analyze_def
      review_agent_finalize_def finalize_try_def and_then_def construct_verdict_def
      validate_verdict_def finalize_report_def Let_def
      SPECIALTIES_def str_nat.simps str_int_def)

text \<open>
  C1. The conditional edge is as the claim says (\<open>route_after_analyze_iff\<close>), but the
  bound does not hold: only the plan node increments the iteration counter and the loop
  never passes through it again. For the alignment specialist (max_iterations = 3), started
  as the orchestrator starts it and with a backend that always asks for more context, the
  run has performed \<open>k\<close> analyze iterations after \<open>1 + 2 k\<close> node executions and is
  about to re-enter spawn_context, for every \<open>k\<close>: the counter stays at 2.
\<close>

theorem C1_alignment_loop_unbounded:
  "map_of REVIEW_AGENT_TEMPLATES ''alignment'' = Some alignment_template \<and>
   (\<exists>c. run_subgraph insistent_env alignment_template (1 + 2 * k)
          (start_config ''alignment'' no_cache_world) = Inr c \<and>
        at_node c = SpawnContext \<and> analyze_calls c = k \<and>
        current_iteration (agent_state c) = 2)"
proof -
  let ?c0 = "start_config ''alignment'' no_cache_world"
  let ?c1 = "?c0\<lparr>at_node := SpawnContext,
     agent_state := review_agent_plan (PlanJson None None) (agent_state ?c0)\<rparr>"
  have t: "map_of REVIEW_AGENT_TEMPLATES ''alignment'' = Some alignment_template"
    by (simp add: REVIEW_AGENT_TEMPLATES_def alignment_template_def)
  have first: "run_subgraph insistent_env alignment_template (1 + 2 * k) ?c0
      = run_subgraph insistent_env alignment_template (2 * k) ?c1"
    by (simp add: start_config_def subgraph_step_def insistent_env_def)
  have "\<exists>c'. run_subgraph insistent_env alignment_template (2 * k) ?c1 = Inr c' \<and>
          at_node c' = SpawnContext \<and> analyze_calls c' = analyze_calls ?c1 + k \<and>
          current_iteration (agent_state c') = current_iteration (agent_state ?c1)"
    by (rule loop_round)
      (simp_all add: start_config_def initial_agent_state_def review_agent_plan_def
        alignment_template_def insistent_env_def)
  then show ?thesis
    unfolding first
    by (simp add: t start_config_def initial_agent_state_def review_agent_plan_def)
qed

subsection \<open>Workflow queue: enqueue\<close>

lemma generate_request_id_canonical:
  assumes "request_type r' = request_type r" and "mset (params r') = mset (params r)"
    and "distinct (map fst (params r))"
  shows "generate_request_id L r' = generate_request_id L r"
proof -
  have "inj_on fst (set (params r))"
    using assms(3) by (simp add: distinct_map)
  then have "inj_on fst (set (params r'))"
    using assms(2) by (metis set_mset_mset)
  then have "sort_key fst (params r') = sort_key fst (params r)"
    using assms(2) by (rule sort_key_eq_sort_key[rotated])
  then show ?thesis
    by (simp add: generate_request_id_def assms(1))
qed

lemma enqueue_active:
  "is_active L db r \<Longrightarrow> enqueue L timeout db r = (Inr (generate_request_id L r), db)"
  by (simp add: enqueue_def Let_def is_active_def)

lemma hset_new_request_data: "hset db k (new_request_data L r) = Inl DataError"
  by (simp add: hset_def new_request_data_def)

lemma enqueue_new:
  assumes "\<not> is_active L db r"
  shows "enqueue L timeout db r = (Inl DataError, db)"
proof -
  have c: "\<not> (hgetall db (get_request_key (generate_request_id L r)) \<noteq> [] \<and>
     map_of (hgetall db (get_request_key (generate_request_id L r))) ''status''
       \<in> set [Some (Bytes ''pending''), Some (Bytes ''in_progress'')])"
    using assms unfolding is_active_def .
  have "enqueue L timeout db r =
     (case hset db (get_request_key (generate_request_id L r)) (new_request_data L r) of
        Inl e \<Rightarrow> (Inl e, db)
      | Inr db1 \<Rightarrow>
          (Inr (generate_request_id L r),
           expire (lpush db1 queue_key (generate_request_id L r))
             (get_request_key (generate_request_id L r)) (timeout * 2)))"
    unfolding enqueue_def Let_def new_request_data_def by (simp only: c if_False)
  then show ?thesis
    by (simp add: hset_new_request_data)
qed

lemma example_id: "generate_request_id example_lib (example_request a b c) = ''run_ci:{}''"
  by (simp add: generate_request_id_def example_lib_def example_request_def)

text \<open>
  The id depends on the params and not on their order, nor on the request_id, the
  requester and the timestamp of the request.
\<close>

lemma example_id_reordered:
  "generate_request_id example_lib
     ((example_request a b c)\<lparr>params := [(''branch'', JStr ''main''), (''attempt'', JNum 2)]\<rparr>)
   = generate_request_id example_lib
     ((example_request a' b' c')\<lparr>params := [(''attempt'', JNum 2), (''branch'', JStr ''main'')]\<rparr>)"
  by (rule generate_request_id_canonical) (simp_all add: example_request_def)

lemma example_id_params:
  "generate_request_id example_lib
     ((example_request a b c)\<lparr>params := [(''branch'', JStr ''main''), (''attempt'', JNum 2)]\<rparr>)
   \<noteq> generate_request_id example_lib (example_request a b c)"
  by (simp add: generate_request_id_def example_lib_def example_request_def str_int_def
      str_nat.simps)

lemma empty_not_active: "\<not> is_active L empty_db r"
  by (simp add: is_active_def empty_db_def hgetall_def)

lemma example_db_status:
  "map_of (hgetall example_db (get_request_key ''run_ci:{}'')) ''status'' = Some (Bytes ''pending'')"
  by (simp add: example_db_def hgetall_def get_request_key_def)

lemma example_db_active: "is_active example_lib example_db (example_request a b c)"
  unfolding is_active_def example_id
  by (simp add: example_db_def hgetall_def get_request_key_def)

text \<open>
  C2. The id is computed as the claim says (\<open>generate_request_id_canonical\<close>: the digest
  of the type and of the sort-keys serialisation of the params, the same for any order
  of the items), and a request whose record is active returns that id and leaves the
  store as it was. But a request whose record is not active is never stored: the
  mapping handed to \<^verbatim>\<open>hset\<close> holds \<^verbatim>\<open>'result': None\<close>, the client raises DataError
  for it, and \<^verbatim>\<open>enqueue\<close> ends there, before \<^verbatim>\<open>lpush\<close> and \<^verbatim>\<open>expire\<close>. For every
  store and every request, \<^verbatim>\<open>enqueue\<close> either returns the id of an active record or
  raises, and in both cases the store is unchanged: no record becomes pending, no id is
  pushed and no lifetime is set.
\<close>

theorem C2_enqueue_never_stores:
  "enqueue L timeout db r =
     (if is_active L db r then (Inr (generate_request_id L r), db) else (Inl DataError, db)) \<and>
   generate_request_id L r =
     md5_hexdigest L (request_type r @ '':'' @ json_dumps L True (JObj (params r)))"
  by (simp add: enqueue_active enqueue_new generate_request_id_def)

theorem C2_enqueue_never_stores_witness:
  "enqueue example_lib 300 empty_db (example_request ''7'' ''alignment_agent'' 0)
     = (Inl DataError, empty_db) \<and>
   enqueue example_lib 300 example_db (example_request ''8'' ''testing_agent'' 5)
     = (Inr ''run_ci:{}'', example_db)"
  using C2_enqueue_never_stores
      [of example_lib 300 empty_db "example_request ''7'' ''alignment_agent'' 0"]
    C2_enqueue_never_stores
      [of example_lib 300 example_db "example_request ''8'' ''testing_agent'' 5"]
  by (simp add: empty_not_active example_db_active example_id)

subsection \<open>Workflow queue: lifecycle calls\<close>

lemma status_after_op:
  "get_request_status (apply_op L now rid db op) rid = Inr (Some (target_status op))"
  by (cases op)
    (simp_all add: apply_op_def target_status_def get_request_status_def mark_in_progress_def
      mark_completed_def mark_failed_def hset_def hgetall_def update_conv' Let_def)

lemma example_db_pending: "get_request_status example_db ''run_ci:{}'' = Inr (Some ''pending'')"
  using example_db_status by (auto simp: get_request_status_def Let_def)

text \<open>
  C3 as stated fails: on a record that is pending, \<^verbatim>\<open>mark_completed\<close> followed by
  \<^verbatim>\<open>mark_in_progress\<close> shows a reader completed and then in_progress.
\<close>

theorem C3_backward_transition:
  "get_request_status example_db ''run_ci:{}'' = Inr (Some ''pending'') \<and>
   status_trace example_lib 9 ''run_ci:{}'' example_db [MarkCompleted [], MarkInProgress]
     = [Inr (Some ''completed''), Inr (Some ''in_progress'')]"
  by (simp add: example_db_pending status_after_op target_status_def)

text \<open>
  C3, amended. Each of the three calls writes its own status whatever the record held
  before, so the status observed after every call of a sequence is that call's target.
  The sequence is pending, in_progress, then completed or failed when the calls are
  issued in that order, as the worker issues them.
\<close>

theorem C3_status_follows_calls:
  "status_trace L now rid db ops = map (\<lambda>op. Inr (Some (target_status op))) ops \<and>
   status_trace L now rid db [MarkInProgress, MarkCompleted res]
     = [Inr (Some ''in_progress''), Inr (Some ''completed'')] \<and>
   status_trace L now rid db [MarkInProgress, MarkFailed err]
     = [Inr (Some ''in_progress''), Inr (Some ''failed'')]"
proof -
  have g: "status_trace L now rid db ops = map (\<lambda>op. Inr (Some (target_status op))) ops"
    for db ops
    by (induction ops arbitrary: db) (simp_all add: status_after_op)
  show ?thesis
    unfolding g by (simp add: target_status_def)
qed

subsection \<open>Workflow queue: taking the next request\<close>

text \<open>
  C10 as stated fails for a record that does not parse for another reason than a missing
  field or params that are not JSON: with a status outside the schema the call raises
  instead of returning none (the id is popped all the same).
\<close>

theorem C10_uncaught_parse_failure:
  "fst (get_next_request example_lib bogus_db) = Inl (ValidationError ''status'') \<and>
   lists (snd (get_next_request example_lib bogus_db)) queue_key = []"
  by (simp add: get_next_request_def rpop_def queue_key_def bogus_db_def hgetall_def
      get_request_key_def parse_request_def and_then_def field_def loads_or_raise_def
      fromisoformat_or_raise_def construct_request_def example_lib_def REQUEST_TYPES_def
      STATUSES_def Let_def)

lemma get_next_empty:
  "lists db queue_key = [] \<Longrightarrow> get_next_request L db = (Inr None, db)"
  by (simp add: get_next_request_def rpop_def)

lemma get_next_store:
  "lists db queue_key \<noteq> [] \<Longrightarrow>
   snd (get_next_request L db) = db\<lparr>lists := (lists db)(queue_key := butlast (lists db queue_key))\<rparr>"
  by (simp add: get_next_request_def rpop_def Let_def split: sum.splits py_exception.splits)

lemma get_next_result:
  "lists db queue_key \<noteq> [] \<Longrightarrow>
   fst (get_next_request L db) =
     (if last (lists db queue_key) = []
         \<or> hgetall db (get_request_key (last (lists db queue_key))) = [] then Inr None
      else case parse_request L (hgetall db (get_request_key (last (lists db queue_key)))) of
             Inr r \<Rightarrow> Inr (Some r)
           | Inl (KeyError k) \<Rightarrow> Inr None
           | Inl JSONDecodeError \<Rightarrow> Inr None
           | Inl e \<Rightarrow> Inl e)"
  by (simp add: get_next_request_def rpop_def Let_def hgetall_def
      split: sum.splits py_exception.splits)


lemma parse_missing_field:
  "map_of request_data ''request_id'' = None \<Longrightarrow>
   parse_request L request_data = Inl (KeyError ''request_id'')"
  by (simp add: parse_request_def and_then_def field_def)

lemma parse_params_not_json:
  "map_of request_data ''request_id'' = Some (Bytes a) \<Longrightarrow>
   map_of request_data ''requesting_agent'' = Some (Bytes b) \<Longrightarrow>
   map_of request_data ''request_type'' = Some (Bytes c) \<Longrightarrow>
   map_of request_data ''params'' = Some (Bytes d) \<Longrightarrow>
   json_loads L d = None \<Longrightarrow>
   parse_request L request_data = Inl JSONDecodeError"
  by (simp add: parse_request_def and_then_def field_def loads_or_raise_def)

text \<open>
  C10, amended. On an empty list the call returns none and changes nothing. On a non-empty
  list the id at the tail is popped and not pushed again, and no hash record or lifetime
  changes; the call returns none when that id has no record; and when reading the
  record raises, it returns none for a KeyError (a field is absent) and for a
  JSONDecodeError (params is not JSON), and raises the exception in every other case.
\<close>

theorem C10_get_next_request:
  "(lists db queue_key = [] \<longrightarrow> get_next_request L db = (Inr None, db)) \<and>
   (lists db queue_key \<noteq> [] \<longrightarrow>
      lists db queue_key = lists (snd (get_next_request L db)) queue_key @ [last (lists db queue_key)] \<and>
      hashes (snd (get_next_request L db)) = hashes db \<and>
      expiry (snd (get_next_request L db)) = expiry db \<and>
      (hgetall db (get_request_key (last (lists db queue_key))) = []
         \<longrightarrow> fst (get_next_request L db) = Inr None) \<and>
      (\<forall>e. last (lists db queue_key) \<noteq> [] \<and>
           hgetall db (get_request_key (last (lists db queue_key))) \<noteq> [] \<and>
           parse_request L (hgetall db (get_request_key (last (lists db queue_key)))) = Inl e
         \<longrightarrow> fst (get_next_request L db)
               = (if (\<exists>k. e = KeyError k) \<or> e = JSONDecodeError then Inr None else Inl e)))"
proof (intro conjI impI allI)
  assume "lists db queue_key = []"
  then show "get_next_request L db = (Inr None, db)" by (rule get_next_empty)
next
  assume n: "lists db queue_key \<noteq> []"
  show "lists db queue_key = lists (snd (get_next_request L db)) queue_key @ [last (lists db queue_key)]"
    using n by (simp add: get_next_store)
next
  assume n: "lists db queue_key \<noteq> []"
  show "hashes (snd (get_next_request L db)) = hashes db"
    using n by (simp add: get_next_store)
next
  assume n: "lists db queue_key \<noteq> []"
  show "expiry (snd (get_next_request L db)) = expiry db"
    using n by (simp add: get_next_store)
next
  assume n: "lists db queue_key \<noteq> []"
    and "hgetall db (get_request_key (last (lists db queue_key))) = []"
  then show "fst (get_next_request L db) = Inr None"
    by (simp add: get_next_result)
next
  fix e
  assume n: "lists db queue_key \<noteq> []"
    and a: "last (lists db queue_key) \<noteq> [] \<and>
           hgetall db (get_request_key (last (lists db queue_key))) \<noteq> [] \<and>
           parse_request L (hgetall db (get_request_key (last (lists db queue_key)))) = Inl e"
  show "fst (get_next_request L db)
               = (if (\<exists>k. e = KeyError k) \<or> e = JSONDecodeError then Inr None else Inl e)"
    using a by (cases e) (simp_all add: get_next_result [OF n])
qed


theorem C10_get_next_request_witness:
  "get_next_request example_lib empty_db = (Inr None, empty_db) \<and>
   fst (get_next_request example_lib orphan_db) = Inr None \<and>
   lists (snd (get_next_request example_lib orphan_db)) queue_key = [] \<and>
   fst (get_next_request example_lib (apply_op example_lib 0 ''abc'' orphan_db MarkInProgress))
     = Inr None"
proof -
  let ?db = "apply_op example_lib 0 ''abc'' orphan_db MarkInProgress"
  have q: "lists orphan_db queue_key = [''abc'']" "lists ?db queue_key = [''abc'']"
    by (simp_all add: orphan_db_def lpush_def empty_db_def apply_op_def mark_in_progress_def
        hset_def)
  have h: "hgetall orphan_db (get_request_key ''abc'') = []"
    "hgetall ?db (get_request_key ''abc'') = [(''status'', Bytes ''in_progress'')]"
    by (simp_all add: orphan_db_def lpush_def empty_db_def apply_op_def mark_in_progress_def
        hset_def hgetall_def)
  have p: "parse_request example_lib [(''status'', Bytes ''in_progress'')]
      = Inl (KeyError ''request_id'')"
    by (rule parse_missing_field) simp
  have e: "lists empty_db queue_key = []"
    by (simp add: empty_db_def)
  show ?thesis
    using C10_get_next_request [of empty_db example_lib]
      C10_get_next_request [of orphan_db example_lib]
      C10_get_next_request [of ?db example_lib]
    by (simp add: q h p e)
qed

subsection \<open>Orchestrator: one report per planned specialist\<close>







subsection \<open>Orchestrator: loading memory\<close>

lemma repo_name_of_example:
  "repo_name_of ''https://github.com/acme/widgets/pull/7'' = ''acme/widgets''"
  by (simp add: repo_name_of_def py_split_def Let_def)

lemma conventions_extend_defaults:
  "\<exists>extra. foldl (\<lambda>conventions file_path.
              case read_file env file_path of
                Content content \<Rightarrow>
                  conventions @ [''Derived from '' @ file_path @ '': ''
                                  @ take 100 (take 1024 content) @ ''...'']
              | Absent \<Rightarrow> conventions
              | Unreadable e \<Rightarrow> conventions) (base @ acc) files = base @ extra"
proof (induction files arbitrary: acc)
  case Nil
  then show ?case by simp
next
  case (Cons f files)
  show ?case
  proof (cases "read_file env f")
    case (Content c)
    then show ?thesis
      using Cons [of "acc @ [''Derived from '' @ f @ '': '' @ take 100 (take 1024 c) @ ''...'']"]
      by simp
  qed (use Cons in simp_all)
qed

lemma conventions_all_fail:
  assumes "\<forall>p \<in> set files. \<forall>c. read_file env p \<noteq> Content c"
  shows "foldl (\<lambda>conventions file_path.
              case read_file env file_path of
                Content content \<Rightarrow>
                  conventions @ [''Derived from '' @ file_path @ '': ''
                                  @ take 100 (take 1024 content) @ ''...'']
              | Absent \<Rightarrow> conventions
              | Unreadable e \<Rightarrow> conventions) base files = base"
  using assms
proof (induction files)
  case Nil
  then show ?case by simp
next
  case (Cons f files)
  then show ?case by (cases "read_file env f") simp_all
qed

lemma load_repo_conventions_defaults:
  "\<exists>extra. load_repo_conventions env = default_conventions @ extra"
  unfolding load_repo_conventions_def
  using conventions_extend_defaults [of env default_conventions "[]" potential_files] by simp

lemma find_similar_prs_fails:
  assumes "postgres_url env = Some url"
    and "\<not> db_connect env url
         \<or> (\<exists>e. db_fetch env (repo_name_of (pr_url (pr_metadata st)))
                  (pr_number (pr_metadata st)) (changed_files st) = Inl e)
         \<or> \<not> db_close env"
  shows "find_similar_prs env st = []"
  using assms by (auto simp: find_similar_prs_def split: sum.splits)

text \<open>
  C9 as stated fails in its last part: when no convention file can be read, the
  conventions are not the empty list but the three built-in ones.
\<close>

theorem C9_conventions_keep_defaults:
  "update_repo_conventions (load_memory failing_env blank_state)
     = Some [''Use type hints for all public functions'',
             ''Include docstrings for public APIs'',
             ''Follow existing code style patterns''] \<and>
   update_repo_conventions (load_memory failing_env blank_state) \<noteq> Some []"
  by (simp add: load_memory_def blank_state_def load_repo_conventions_def failing_env_def
      potential_files_def default_conventions_def)

text \<open>
  C9, amended. When repo_memory, similar_prs and repo_conventions are all non-empty the
  partial update holds none of the three fields. \<^verbatim>\<open>load_memory\<close> has no exceptional
  result: every operation of it that can raise (connecting, querying, closing, opening
  and reading a file) is enclosed in a handler. When similar_prs is empty and the
  look-up fails at any of its steps, the update's similar_prs is the empty list. When
  repo_conventions is empty, the update's conventions always start with the three
  built-in conventions, and are exactly those three when no file could be read.
\<close>

theorem C9_load_memory:
  "(repo_memory st \<noteq> [] \<and> similar_prs st \<noteq> [] \<and> repo_conventions st \<noteq> []
      \<longrightarrow> load_memory env st
            = \<lparr>update_repo_memory = None, update_similar_prs = None,
               update_repo_conventions = None\<rparr>) \<and>
   (similar_prs st = [] \<and> postgres_url env = Some url \<and>
      (\<not> db_connect env url
         \<or> (\<exists>e. db_fetch env (repo_name_of (pr_url (pr_metadata st)))
                  (pr_number (pr_metadata st)) (changed_files st) = Inl e)
         \<or> \<not> db_close env)
      \<longrightarrow> update_similar_prs (load_memory env st) = Some []) \<and>
   (repo_conventions st = []
      \<longrightarrow> (\<exists>extra. update_repo_conventions (load_memory env st)
                     = Some (default_conventions @ extra))) \<and>
   (repo_conventions st = [] \<and> (\<forall>p \<in> set potential_files. \<forall>c. read_file env p \<noteq> Content c)
      \<longrightarrow> update_repo_conventions (load_memory env st) = Some default_conventions)"
proof (intro conjI impI)
  assume "repo_memory st \<noteq> [] \<and> similar_prs st \<noteq> [] \<and> repo_conventions st \<noteq> []"
  then show "load_memory env st
            = \<lparr>update_repo_memory = None, update_similar_prs = None,
               update_repo_conventions = None\<rparr>"
    by (simp add: load_memory_def)
next
  assume a: "similar_prs st = [] \<and> postgres_url env = Some url \<and>
      (\<not> db_connect env url
         \<or> (\<exists>e. db_fetch env (repo_name_of (pr_url (pr_metadata st)))
                  (pr_number (pr_metadata st)) (changed_files st) = Inl e)
         \<or> \<not> db_close env)"
  then have "find_similar_prs env st = []"
    using find_similar_prs_fails [of env url st] by blast
  with a show "update_similar_prs (load_memory env st) = Some []"
    by (simp add: load_memory_def)
next
  assume "repo_conventions st = []"
  then show "\<exists>extra. update_repo_conventions (load_memory env st)
                     = Some (default_conventions @ extra)"
    using load_repo_conventions_defaults [of env] by (simp add: load_memory_def)
next
  assume a: "repo_conventions st = [] \<and> (\<forall>p \<in> set potential_files. \<forall>c. read_file env p \<noteq> Content c)"
  then have "load_repo_conventions env = default_conventions"
    unfolding load_repo_conventions_def by (intro conventions_all_fail) blast
  with a show "update_repo_conventions (load_memory env st) = Some default_conventions"
    by (simp add: load_memory_def)
qed

theorem C9_load_memory_witness:
  "load_memory failing_env supplied_state
     = \<lparr>update_repo_memory = None, update_similar_prs = None, update_repo_conventions = None\<rparr> \<and>
   update_similar_prs (load_memory failing_env blank_state) = Some [] \<and>
   update_repo_conventions (load_memory failing_env blank_state) = Some default_conventions"
  using C9_load_memory [of supplied_state failing_env "''postgresql://db/reviews''"]
    C9_load_memory [of blank_state failing_env "''postgresql://db/reviews''"]
  by (simp add: supplied_state_def blank_state_def failing_env_def)

subsection \<open>Context resolution: caching\<close>

lemma resolve_memory_hit:
  assumes "req_type req = Some ct" and "ct \<in> set CONTEXT_AGENT_TEMPLATES"
    and "memory_lookup (context_cache w) (cache_key_of ct req) = Some g"
  shows "resolve_context_request agent ttl ff it now w req = (Inr g, w)"
  using assms by (simp add: resolve_context_request_def Let_def)

lemma resolve_redis_hit:
  assumes "req_type req = Some ct" and "ct \<in> set CONTEXT_AGENT_TEMPLATES"
    and "memory_lookup (context_cache w) (cache_key_of ct req) = None"
    and "redis_lookup (redis_client w) now (cache_key_of ct req) = Some g"
  shows "resolve_context_request agent ttl ff it now w req = (Inr g, w)"
  using assms by (simp add: resolve_context_request_def Let_def)

lemma resolve_miss:
  assumes "req_type req = Some ct" and "ct \<in> set CONTEXT_AGENT_TEMPLATES"
    and "memory_lookup (context_cache w) (cache_key_of ct req) = None"
    and "redis_lookup (redis_client w) now (cache_key_of ct req) = None"
    and "agent ct (case req_files req of None \<Rightarrow> [] | Some fs \<Rightarrow> fs)
               (case req_query req of None \<Rightarrow> [] | Some q \<Rightarrow> q) = Inr res"
  shows "resolve_context_request agent ttl ff it now w req =
           (Inr (fresh_item ct req it res),
            store_result ttl now (cache_key_of ct req) (fresh_item ct req it res)
              (w\<lparr>tool_invocations := Suc (tool_invocations w)\<rparr>))"
  using assms by (simp add: resolve_context_request_def Let_def fresh_item_def)

lemma resolve_invocations:
  "tool_invocations (snd (resolve_context_request agent ttl ff it now w req))
     \<le> Suc (tool_invocations w)"
  by (auto simp: resolve_context_request_def Let_def store_result_def redis_setex_def
      split: option.splits sum.splits)

lemma store_tool_invocations:
  "tool_invocations (store_result ttl now k item w) = tool_invocations w"
  by (simp add: store_result_def split: option.splits sum.splits)

lemma stored_then_found:
  assumes "cache_usable w ttl now1 now2"
  shows "memory_lookup (context_cache (store_result ttl now1 k item
            (w\<lparr>tool_invocations := n\<rparr>))) k = Some item
       \<or> (memory_lookup (context_cache (store_result ttl now1 k item
            (w\<lparr>tool_invocations := n\<rparr>))) k = None
          \<and> redis_lookup (redis_client (store_result ttl now1 k item
            (w\<lparr>tool_invocations := n\<rparr>))) now2 k = Some item)"
proof (cases "redis_client w")
  case None
  with assms obtain m where "context_cache w = Some m"
    by (auto simp: cache_usable_def)
  with None show ?thesis
    by (simp add: store_result_def memory_lookup_def update_conv')
next
  case (Some r)
  with assms have nr: "\<not> kv_raises r" by (auto simp: cache_usable_def)
  show ?thesis
  proof (cases "context_cache w")
    case None
    with assms Some have "now2 < now1 + ttl" by (auto simp: cache_usable_def)
    with None Some nr show ?thesis
      by (simp add: store_result_def redis_setex_def memory_lookup_def redis_lookup_def
          redis_get_def update_conv')
  next
    case (Some m)
    with \<open>redis_client w = Some r\<close> nr show ?thesis
      by (simp add: store_result_def redis_setex_def memory_lookup_def update_conv')
  qed
qed


lemma second_resolution_hits:
  assumes t: "req_type req = Some ct" "ct \<in> set CONTEXT_AGENT_TEMPLATES"
    and u: "cache_usable w ttl now1 now2"
  shows "resolve_context_request agent ttl ff it2 now2
           (store_result ttl now1 (cache_key_of ct req) item (w\<lparr>tool_invocations := n\<rparr>)) req
         = (Inr item,
            store_result ttl now1 (cache_key_of ct req) item (w\<lparr>tool_invocations := n\<rparr>))"
  using stored_then_found [OF u, where n = n and k = "cache_key_of ct req" and item = item]
    resolve_memory_hit [OF t] resolve_redis_hit [OF t]
  by blast

lemma miss_then_hit:
  assumes t: "req_type req = Some ct" "ct \<in> set CONTEXT_AGENT_TEMPLATES"
    and u: "cache_usable w ttl now1 now2"
    and ok: "agent ct (case req_files req of None \<Rightarrow> [] | Some fs \<Rightarrow> fs)
               (case req_query req of None \<Rightarrow> [] | Some q \<Rightarrow> q) = Inr res"
    and m: "memory_lookup (context_cache w) (cache_key_of ct req) = None"
      "redis_lookup (redis_client w) now1 (cache_key_of ct req) = None"
  shows "fst (resolve_context_request agent ttl ff it1 now1 w req)
           = Inr (fresh_item ct req it1 res)"
    and "resolve_context_request agent ttl ff it2 now2
           (snd (resolve_context_request agent ttl ff it1 now1 w req)) req
         = (Inr (fresh_item ct req it1 res),
            snd (resolve_context_request agent ttl ff it1 now1 w req))"
    and "tool_invocations (snd (resolve_context_request agent ttl ff it1 now1 w req))
         = Suc (tool_invocations w)"
  by (simp_all add: resolve_miss [where agent = agent, OF t m ok] second_resolution_hits [OF t u]
      store_tool_invocations)

lemma two_resolutions_bound:
  assumes t: "req_type req = Some ct" "ct \<in> set CONTEXT_AGENT_TEMPLATES"
    and u: "cache_usable w ttl now1 now2"
    and ok: "agent ct (case req_files req of None \<Rightarrow> [] | Some fs \<Rightarrow> fs)
               (case req_query req of None \<Rightarrow> [] | Some q \<Rightarrow> q) = Inr res"
  shows "tool_invocations
           (snd (resolve_context_request agent ttl ff it2 now2
                   (snd (resolve_context_request agent ttl ff it1 now1 w req)) req))
           \<le> tool_invocations w + 1"
proof (cases "memory_lookup (context_cache w) (cache_key_of ct req)")
  case (Some g)
  then have "resolve_context_request agent ttl ff it1 now1 w req = (Inr g, w)"
    by (rule resolve_memory_hit [OF t])
  then show ?thesis
    using resolve_invocations [of agent ttl ff it2 now2 w req] by simp
next
  case None
  show ?thesis
  proof (cases "redis_lookup (redis_client w) now1 (cache_key_of ct req)")
    case (Some g)
    with None have "resolve_context_request agent ttl ff it1 now1 w req = (Inr g, w)"
      by (rule resolve_redis_hit [OF t])
    then show ?thesis
      using resolve_invocations [of agent ttl ff it2 now2 w req] by simp
  next
    case n2: None
    have "tool_invocations (snd (resolve_context_request agent ttl ff it1 now1 w req))
         = Suc (tool_invocations w)"
      using t u ok None n2 by (rule miss_then_hit(3))
    moreover have "resolve_context_request agent ttl ff it2 now2
           (snd (resolve_context_request agent ttl ff it1 now1 w req)) req
         = (Inr (fresh_item ct req it1 res),
            snd (resolve_context_request agent ttl ff it1 now1 w req))"
      using t u ok None n2 by (rule miss_then_hit(2))
    ultimately show ?thesis
      by simp
  qed
qed

text \<open>
  C8 as stated fails: with a state that has no in-memory cache (as the specialist's own
  state has none) and no external store client, resolving the same request twice invokes
  the tool twice.
\<close>

theorem C8_no_cache_invokes_twice:
  "tool_invocations
     (snd (resolve_context_request example_agent 3600 False 2 10
             (snd (resolve_context_request example_agent 3600 False 2 0
                     no_cache_world example_context_request))
             example_context_request)) = 2"
  by (simp add: resolve_context_request_def no_cache_world_def example_context_request_def
      example_agent_def CONTEXT_AGENT_TEMPLATES_def memory_lookup_def redis_lookup_def
      store_result_def Let_def)


text \<open>
  C8, amended. For a request of a known context type: a hit in the in-memory cache
  (checked first) or, failing that, in the external store (checked second) returns the
  cached record unchanged and invokes nothing. When a cache tier is usable and the
  context agent succeeds, two resolutions of the same key invoke the tool at most once,
  and when the first one had to invoke it, the second one returns the very record the
  first one built and leaves the caches as they are.
\<close>

theorem C8_cache_idempotence:
  assumes t: "req_type req = Some ct" "ct \<in> set CONTEXT_AGENT_TEMPLATES"
  shows
   "(memory_lookup (context_cache w) (cache_key_of ct req) = Some g
       \<longrightarrow> resolve_context_request agent ttl ff it1 now1 w req = (Inr g, w)) \<and>
    (memory_lookup (context_cache w) (cache_key_of ct req) = None \<and>
     redis_lookup (redis_client w) now1 (cache_key_of ct req) = Some g
       \<longrightarrow> resolve_context_request agent ttl ff it1 now1 w req = (Inr g, w)) \<and>
    (cache_usable w ttl now1 now2 \<and>
     agent ct (case req_files req of None \<Rightarrow> [] | Some fs \<Rightarrow> fs)
              (case req_query req of None \<Rightarrow> [] | Some q \<Rightarrow> q) = Inr res
       \<longrightarrow>
         tool_invocations
           (snd (resolve_context_request agent ttl ff it2 now2
                   (snd (resolve_context_request agent ttl ff it1 now1 w req)) req))
           \<le> tool_invocations w + 1 \<and>
         (memory_lookup (context_cache w) (cache_key_of ct req) = None \<and>
          redis_lookup (redis_client w) now1 (cache_key_of ct req) = None
            \<longrightarrow>
              fst (resolve_context_request agent ttl ff it1 now1 w req)
                = Inr (fresh_item ct req it1 res) \<and>
              resolve_context_request agent ttl ff it2 now2
                  (snd (resolve_context_request agent ttl ff it1 now1 w req)) req
                = (Inr (fresh_item ct req it1 res),
                   snd (resolve_context_request agent ttl ff it1 now1 w req))))"
  using resolve_memory_hit [OF t, of w g agent ttl ff it1 now1]
    resolve_redis_hit [OF t, of w now1 g agent ttl ff it1]
    two_resolutions_bound [where agent = agent and res = res, OF t, of w ttl now1 now2 ff it2 it1]
    miss_then_hit(1,2) [where agent = agent and res = res, OF t, of w ttl now1 now2]
  by blast

lemma example_request_facts:
  "req_type example_context_request = Some ''git_history''"
  "''git_history'' \<in> set CONTEXT_AGENT_TEMPLATES"
  "example_agent ''git_history''
     (case req_files example_context_request of None \<Rightarrow> [] | Some fs \<Rightarrow> fs)
     (case req_query example_context_request of None \<Rightarrow> [] | Some q \<Rightarrow> q)
   = Inr \<lparr>context_found = ''three commits touch src/auth.py'', cost = 1 / 1000, tokens = 12\<rparr>"
  by (simp_all add: example_context_request_def CONTEXT_AGENT_TEMPLATES_def example_agent_def)

theorem C8_cache_idempotence_witness:
  "cache_usable memory_world 3600 0 10 \<and>
   resolve_context_request example_agent 3600 False 3 10
       (snd (resolve_context_request example_agent 3600 False 2 0 memory_world
               example_context_request)) example_context_request
     = resolve_context_request example_agent 3600 False 2 0 memory_world example_context_request \<and>
   cache_usable redis_world 3600 0 10 \<and>
   resolve_context_request example_agent 3600 False 3 10
       (snd (resolve_context_request example_agent 3600 False 2 0 redis_world
               example_context_request)) example_context_request
     = resolve_context_request example_agent 3600 False 2 0 redis_world example_context_request"
proof -
  let ?res = "\<lparr>context_found = ''three commits touch src/auth.py'', cost = 1 / 1000, tokens = 12\<rparr>"
  have um: "cache_usable memory_world 3600 0 10" and ur: "cache_usable redis_world 3600 0 10"
    by (simp_all add: cache_usable_def memory_world_def redis_world_def)
  have mm: "memory_lookup (context_cache memory_world) k = None"
    "redis_lookup (redis_client memory_world) 0 k = None"
    "memory_lookup (context_cache redis_world) k = None"
    "redis_lookup (redis_client redis_world) 0 k = None" for k
    by (simp_all add: memory_lookup_def redis_lookup_def memory_world_def redis_world_def
        redis_get_def)
  show ?thesis
    using C8_cache_idempotence [OF example_request_facts(1,2), where agent = example_agent
        and w = memory_world and ttl = 3600 and ?now1.0 = 0 and ?now2.0 = 10 and res = ?res
        and ff = False and ?it1.0 = 2 and ?it2.0 = 3]
      C8_cache_idempotence [OF example_request_facts(1,2), where agent = example_agent
        and w = redis_world and ttl = 3600 and ?now1.0 = 0 and ?now2.0 = 10 and res = ?res
        and ff = False and ?it1.0 = 2 and ?it2.0 = 3]
      um ur mm example_request_facts(3)
    by (metis prod.collapse)
qed

end
